theory Spec2Isabelle
  imports Main "HOL-Library.Word"
begin

unbundle bit_operations_syntax

section \<open>Machine types of conv\_utils.h\<close>

text \<open>
  The header works on fixed-width unsigned integers: \<open>uint8_t\<close>, \<open>uint32_t\<close> and
  \<open>size_t\<close> (64 bits on the LP64 targets of the library). They are words, so that
  \<open>+\<close>, \<open>-\<close> and \<open>*\<close> wrap around as the C++ operators do. An operation on two
  \<open>uint32_t\<close> operands is carried out at 32 bits and widened afterwards
  (\<open>ucast\<close>); an operation with a \<open>size_t\<close> operand is carried out at 64 bits.
\<close>

type_synonym uint8_t = "8 word"
type_synonym uint32_t = "32 word"
type_synonym size_t = "64 word"

text \<open>
  \<open>std::array<uint32_t, 2>\<close> and \<open>std::array<uint32_t, 4>\<close> are only ever read at
  constant indices, so they are tuples with one reader per index.
\<close>

type_synonym array2 = "uint32_t \<times> uint32_t"
type_synonym array4 = "uint32_t \<times> uint32_t \<times> uint32_t \<times> uint32_t"

definition at0 :: "array2 \<Rightarrow> uint32_t" where
  "at0 a = fst a"

definition at1 :: "array2 \<Rightarrow> uint32_t" where
  "at1 a = snd a"

definition pad0 :: "array4 \<Rightarrow> uint32_t" where
  "pad0 p = (case p of (t, l, b, r) \<Rightarrow> t)"

definition pad1 :: "array4 \<Rightarrow> uint32_t" where
  "pad1 p = (case p of (t, l, b, r) \<Rightarrow> l)"

definition pad2 :: "array4 \<Rightarrow> uint32_t" where
  "pad2 p = (case p of (t, l, b, r) \<Rightarrow> b)"

definition pad3 :: "array4 \<Rightarrow> uint32_t" where
  "pad3 p = (case p of (t, l, b, r) \<Rightarrow> r)"

text \<open>\<open>SIZE_MAX\<close> of \<open>cstdint\<close>: all 64 bits set.\<close>

definition SIZE_MAX :: size_t where
  "SIZE_MAX = - 1"

subsection \<open>The \<open>float\<close> kernel scale\<close>

text \<open>
  The constructor only compares \<open>kernel_scale\<close> with \<open>0.0f\<close> and classifies it with
  \<open>std::isnormal\<close>; it does no floating-point arithmetic. A \<open>float\<close> is therefore
  its IEEE-754 binary32 bit pattern: sign bit 31, biased exponent in bits 30..23,
  fraction in bits 22..0.
\<close>

type_synonym float32 = "32 word"

definition float_sign :: "float32 \<Rightarrow> bool" where
  "float_sign x = bit x 31"

definition float_exponent :: "float32 \<Rightarrow> nat" where
  "float_exponent x = unat (drop_bit 23 x AND 255)"

definition float_fraction :: "float32 \<Rightarrow> nat" where
  "float_fraction x = unat (x AND 8388607)"

definition float_isnan :: "float32 \<Rightarrow> bool" where
  "float_isnan x = (float_exponent x = 255 \<and> float_fraction x \<noteq> 0)"

definition float_iszero :: "float32 \<Rightarrow> bool" where
  "float_iszero x = (float_exponent x = 0 \<and> float_fraction x = 0)"

text \<open>\<open>x <= 0.0f\<close>: false on a NaN, true on either zero and on every negative value.\<close>

definition float_le_zero :: "float32 \<Rightarrow> bool" where
  "float_le_zero x = (\<not> float_isnan x \<and> (float_iszero x \<or> float_sign x))"

text \<open>\<open>std::isnormal\<close>: neither zero, subnormal, infinite nor NaN.\<close>

definition isnormal :: "float32 \<Rightarrow> bool" where
  "isnormal x = (float_exponent x \<noteq> 0 \<and> float_exponent x \<noteq> 255)"

section \<open>Effects: the diagnostic log and faults\<close>

text \<open>
  Modelled from the spec: \<open>pytorch_qnnp_log_error\<close> and \<open>pytorch_qnnp_log_info\<close> are
  declared in \<open>qnnpack/log.h\<close>, which is not among the sources. Following section 6 of
  the specification they hand a severity and a formatted message to a diagnostic sink.
  The sink is a list of entries, appended to in program order. Each entry keeps the
  severity, which of the twelve format strings of the constructor was used, and the
  format arguments.
\<close>

datatype severity = Error | Info

datatype message =
    Groups_zero                      \<comment> \<open>"failed to create %s with groups equal to zero."\<close>
  | Channels_not_divisible           \<comment> \<open>"... input and output channels must be divisible by groups."\<close>
  | Kernel_zero                      \<comment> \<open>"... kernel dimensions must be non-zero"\<close>
  | Subsampling_zero                 \<comment> \<open>"... subsampling dimensions must be non-zero"\<close>
  | Dilation_zero                    \<comment> \<open>"... dilation dimensions must be non-zero"\<close>
  | Kernel_scale_invalid             \<comment> \<open>"... kernel scale: scale must be finite and positive"\<close>
  | Height_subsampling_gt_kernel     \<comment> \<open>"... height subsampling is greater than kernel height ..."\<close>
  | Width_subsampling_gt_kernel      \<comment> \<open>"... width subsampling is greater than kernel width ..."\<close>
  | Top_padding_ge_kernel            \<comment> \<open>"... input top padding is greater or equal to kernel height"\<close>
  | Bottom_padding_ge_kernel         \<comment> \<open>"... input bottom padding is greater or equal to kernel height"\<close>
  | Right_padding_ge_kernel          \<comment> \<open>"... input right padding is greater or equal to kernel width"\<close>
  | Left_padding_ge_kernel           \<comment> \<open>"... input left padding is greater or equal to kernel width"\<close>

datatype log_arg = Str string | U32 uint32_t | F32 float32

datatype log_entry = Log severity message "log_arg list"

text \<open>
  What can stop the constructor before it returns: a failed \<open>assert\<close>, and an integer
  division or remainder by zero (undefined behaviour in C++, a trap on x86).
\<close>

datatype fault = Assertion_failed | Division_by_zero

text \<open>
  A statement of the constructor takes the log written so far and gives the log after
  it together with either a fault or its value. The log is kept on a fault: what was
  reported before the fault has been reported.
\<close>

type_synonym 'a action = "log_entry list \<Rightarrow> log_entry list \<times> (fault + 'a)"

definition return_value :: "'a \<Rightarrow> 'a action" where
  "return_value v = (\<lambda>l. (l, Inr v))"

definition and_then :: "'a action \<Rightarrow> ('a \<Rightarrow> 'b action) \<Rightarrow> 'b action" where
  "and_then m k = (\<lambda>l. case m l of (l', Inl f) \<Rightarrow> (l', Inl f) | (l', Inr v) \<Rightarrow> k v l')"

definition when_do :: "bool \<Rightarrow> unit action \<Rightarrow> unit action" where
  "when_do c m = (if c then m else return_value ())"

definition pytorch_qnnp_log_error :: "message \<Rightarrow> log_arg list \<Rightarrow> unit action" where
  "pytorch_qnnp_log_error m as = (\<lambda>l. (l @ [Log Error m as], Inr ()))"

definition pytorch_qnnp_log_info :: "message \<Rightarrow> log_arg list \<Rightarrow> unit action" where
  "pytorch_qnnp_log_info m as = (\<lambda>l. (l @ [Log Info m as], Inr ()))"

text \<open>\<open>assert(c)\<close> of a build with assertions enabled.\<close>

definition cxx_assert :: "bool \<Rightarrow> unit action" where
  "cxx_assert c = (\<lambda>l. (l, if c then Inr () else Inl Assertion_failed))"

text \<open>
  Every \<open>assert\<close> of the constructor is given a string literal. The literal decays to
  a pointer to its first character, which is never null, so the asserted condition is
  true whatever the text says.
\<close>

definition string_literal_as_condition :: "string \<Rightarrow> bool" where
  "string_literal_as_condition s = True"

text \<open>\<open>a % b\<close> and \<open>a / b\<close> on \<open>size_t\<close>.\<close>

definition size_mod :: "size_t \<Rightarrow> size_t \<Rightarrow> size_t action" where
  "size_mod a b = (\<lambda>l. (l, if b = 0 then Inl Division_by_zero else Inr (a mod b)))"

definition size_div :: "size_t \<Rightarrow> size_t \<Rightarrow> size_t action" where
  "size_div a b = (\<lambda>l. (l, if b = 0 then Inl Division_by_zero else Inr (a div b)))"

section \<open>\<open>compute_output_dimension\<close>\<close>

text \<open>
  All seven parameters are \<open>size_t\<close> (the flag apart), so the whole body is 64-bit
  unsigned arithmetic. The division of the non-transposed branch is by \<open>stride_dim\<close>;
  a zero stride is a division by zero.
\<close>

definition compute_output_dimension ::
  "size_t \<Rightarrow> size_t \<Rightarrow> size_t \<Rightarrow> size_t \<Rightarrow> size_t \<Rightarrow> size_t \<Rightarrow> bool \<Rightarrow> fault + size_t" where
  "compute_output_dimension input_dim pad_dim adjustment_dim kernel_dim dilation_dim stride_dim
       transpose_flag =
     (let kernel_dim = (kernel_dim - 1) * dilation_dim + 1 in
      if transpose_flag then
        Inr (stride_dim * (input_dim - 1) + adjustment_dim + kernel_dim - pad_dim)
      else if stride_dim = 0 then Inl Division_by_zero
      else Inr ((input_dim + pad_dim - kernel_dim) div stride_dim + 1))"

section \<open>\<open>conv_param_t\<close>\<close>

text \<open>
  Modelled from the spec: \<open>enum pytorch_qnnp_ukernel_type\<close> is declared in
  \<open>qnnpack/operator.h\<close>, which is not among the sources. Section 4.2 of the
  specification gives its variant set as none, gemm, xzp\_gemm, dwconv and conv, the
  five enumerators the constructor names.
\<close>

datatype pytorch_qnnp_ukernel_type =
    pytorch_qnnp_ukernel_type_none
  | pytorch_qnnp_ukernel_type_gemm
  | pytorch_qnnp_ukernel_type_xzp_gemm
  | pytorch_qnnp_ukernel_type_dwconv
  | pytorch_qnnp_ukernel_type_conv

text \<open>
  The fields of the struct, in declaration order. The field \<open>transpose\<close> is called
  \<open>transpose_flag\<close> here, since \<open>transpose\<close> is a list function of the library.
\<close>

record conv_param_t =
  kernel_dims :: array2
  stride_dims :: array2
  dilation :: array2
  padding :: array4
  adjustment_dims :: array2
  groups :: uint32_t
  input_channels :: size_t
  output_channels :: size_t
  kernel_zero_point :: uint8_t
  kernel_scale :: float32
  output_min :: uint8_t
  output_max :: uint8_t
  transpose_flag :: bool
  ukernel_type :: pytorch_qnnp_ukernel_type
  group_input_channels :: size_t
  group_output_channels :: size_t

subsection \<open>The classification block of the constructor (lines 230 to 246)\<close>

text \<open>
  \<open>kernel_size\<close> is the product of two \<open>uint32_t\<close> values, taken at 32 bits and then
  widened to \<open>size_t\<close>. \<open>any_padding\<close> is the bitwise or of the four paddings.
  The non-transposed branch first stores none (\<open>ukernel_type_initial\<close>) and then
  overwrites it in each of the three branches that follow.
\<close>

definition select_ukernel_type ::
  "bool \<Rightarrow> array2 \<Rightarrow> array2 \<Rightarrow> array4 \<Rightarrow> uint32_t \<Rightarrow> size_t \<Rightarrow> size_t
     \<Rightarrow> pytorch_qnnp_ukernel_type" where
  "select_ukernel_type transpose_v kernel_v stride_v padding_v groups_v
       group_input_channels_v group_output_channels_v =
     (let kernel_width = at0 kernel_v;
          kernel_height = at1 kernel_v;
          input_padding_top = pad0 padding_v;
          input_padding_left = pad1 padding_v;
          input_padding_bottom = pad2 padding_v;
          input_padding_right = pad3 padding_v;
          kernel_size = (ucast (kernel_height * kernel_width) :: size_t)
      in
      if transpose_v then pytorch_qnnp_ukernel_type_conv
      else
        let ukernel_type_initial = pytorch_qnnp_ukernel_type_none;
            any_padding =
              ((input_padding_left OR input_padding_top
                  OR input_padding_right OR input_padding_bottom) \<noteq> 0)
        in
        if (kernel_size = 9 \<or> kernel_size = 25) \<and>
           group_input_channels_v = 1 \<and> group_output_channels_v = 1 \<and> 1 < groups_v
        then pytorch_qnnp_ukernel_type_dwconv
        else if kernel_size = 1 \<and> at1 stride_v = 1 \<and> at0 stride_v = 1 \<and> \<not> any_padding
        then (if SIZE_MAX \<le> group_input_channels_v
              then pytorch_qnnp_ukernel_type_xzp_gemm
              else pytorch_qnnp_ukernel_type_gemm)
        else pytorch_qnnp_ukernel_type_conv)"

subsection \<open>The constructor\<close>

definition failed_to_initialize :: string where
  "failed_to_initialize = ''Failed to initialize QNNPACK conv_param_t struct.''"

text \<open>
  The condition \<open>input_channels % groups != 0 || output_channels % groups != 0\<close>:
  \<open>groups\<close> is widened to \<open>size_t\<close>, and \<open>||\<close> evaluates its right operand only when the
  left one is false.
\<close>

definition channels_not_divisible :: "size_t \<Rightarrow> size_t \<Rightarrow> uint32_t \<Rightarrow> bool action" where
  "channels_not_divisible input_channels_v output_channels_v groups_v =
     and_then (size_mod input_channels_v (ucast groups_v)) (\<lambda>r_in.
       if r_in \<noteq> 0 then return_value True
       else and_then (size_mod output_channels_v (ucast groups_v)) (\<lambda>r_out.
         return_value (r_out \<noteq> 0)))"

definition conv_param_t_ctor ::
  "array2 \<Rightarrow> array2 \<Rightarrow> array2 \<Rightarrow> array4 \<Rightarrow> array2 \<Rightarrow> uint32_t \<Rightarrow> size_t \<Rightarrow> size_t
     \<Rightarrow> uint8_t \<Rightarrow> float32 \<Rightarrow> uint8_t \<Rightarrow> uint8_t \<Rightarrow> bool \<Rightarrow> conv_param_t action" where
  "conv_param_t_ctor kernel_v stride_v dilation_v padding_v adjustment_v groups_v
       input_channels_v output_channels_v kernel_zp_v kernel_stride_v out_min_v out_max_v
       transpose_v =
     (let kernel_width = at0 kernel_v;
          kernel_height = at1 kernel_v;
          input_padding_top = pad0 padding_v;
          input_padding_left = pad1 padding_v;
          input_padding_bottom = pad2 padding_v;
          input_padding_right = pad3 padding_v;
          name = (if transpose_v then ''deconvolution'' else ''convolution'')
      in
      and_then (when_do (groups_v = 0)
        (and_then (pytorch_qnnp_log_error Groups_zero [Str name]) (\<lambda>_.
           cxx_assert (string_literal_as_condition failed_to_initialize)))) (\<lambda>_.
      and_then (channels_not_divisible input_channels_v output_channels_v groups_v) (\<lambda>c.
      and_then (when_do c
        (and_then (pytorch_qnnp_log_error Channels_not_divisible [Str name]) (\<lambda>_.
           cxx_assert (string_literal_as_condition failed_to_initialize)))) (\<lambda>_.
      and_then (size_div input_channels_v (ucast groups_v)) (\<lambda>group_input_channels_v.
      and_then (size_div output_channels_v (ucast groups_v)) (\<lambda>group_output_channels_v.
      and_then (when_do (kernel_width = 0 \<or> kernel_height = 0)
        (and_then (pytorch_qnnp_log_error Kernel_zero
                     [Str name, U32 kernel_width, U32 kernel_height]) (\<lambda>_.
           cxx_assert (string_literal_as_condition failed_to_initialize)))) (\<lambda>_.
      and_then (when_do (at0 stride_v = 0 \<or> at1 stride_v = 0)
        (and_then (pytorch_qnnp_log_error Subsampling_zero
                     [Str name, U32 (at0 stride_v), U32 (at1 stride_v)]) (\<lambda>_.
           cxx_assert (string_literal_as_condition failed_to_initialize)))) (\<lambda>_.
      and_then (when_do (at0 dilation_v = 0 \<or> at1 dilation_v = 0)
        (and_then (pytorch_qnnp_log_error Dilation_zero
                     [Str name, U32 (at0 dilation_v), U32 (at1 dilation_v)]) (\<lambda>_.
           cxx_assert (string_literal_as_condition failed_to_initialize)))) (\<lambda>_.
      and_then (when_do (float_le_zero kernel_stride_v \<or> \<not> isnormal kernel_stride_v)
        (and_then (pytorch_qnnp_log_error Kernel_scale_invalid
                     [Str name, F32 kernel_stride_v]) (\<lambda>_.
           cxx_assert (string_literal_as_condition failed_to_initialize)))) (\<lambda>_.
      and_then (when_do (kernel_height < at1 stride_v)
        (pytorch_qnnp_log_info Height_subsampling_gt_kernel
           [Str name, U32 kernel_width, U32 kernel_height,
            U32 (at0 stride_v), U32 (at1 stride_v), Str name])) (\<lambda>_.
      and_then (when_do (kernel_width < at0 stride_v)
        (pytorch_qnnp_log_info Width_subsampling_gt_kernel
           [Str name, U32 kernel_width, U32 kernel_height,
            U32 (at0 stride_v), U32 (at1 stride_v), Str name])) (\<lambda>_.
      and_then (when_do (kernel_height \<le> input_padding_top)
        (pytorch_qnnp_log_info Top_padding_ge_kernel
           [Str name, U32 kernel_width, U32 kernel_height,
            U32 input_padding_top, U32 input_padding_bottom])) (\<lambda>_.
      and_then (when_do (kernel_height \<le> input_padding_bottom)
        (pytorch_qnnp_log_info Bottom_padding_ge_kernel
           [Str name, U32 kernel_width, U32 kernel_height,
            U32 input_padding_top, U32 input_padding_bottom])) (\<lambda>_.
      and_then (when_do (kernel_width \<le> input_padding_right)
        (pytorch_qnnp_log_info Right_padding_ge_kernel
           [Str name, U32 kernel_width, U32 kernel_height,
            U32 input_padding_left, U32 input_padding_right])) (\<lambda>_.
      and_then (when_do (kernel_width \<le> input_padding_left)
        (pytorch_qnnp_log_info Left_padding_ge_kernel
           [Str name, U32 kernel_width, U32 kernel_height,
            U32 input_padding_left, U32 input_padding_right])) (\<lambda>_.
      return_value
        \<lparr> kernel_dims = kernel_v,
          stride_dims = stride_v,
          dilation = dilation_v,
          padding = padding_v,
          adjustment_dims = adjustment_v,
          groups = groups_v,
          input_channels = input_channels_v,
          output_channels = output_channels_v,
          kernel_zero_point = kernel_zp_v,
          kernel_scale = kernel_stride_v,
          output_min = out_min_v,
          output_max = out_max_v,
          transpose_flag = transpose_v,
          ukernel_type =
            select_ukernel_type transpose_v kernel_v stride_v padding_v groups_v
              group_input_channels_v group_output_channels_v,
          group_input_channels = group_input_channels_v,
          group_output_channels = group_output_channels_v \<rparr>))))))))))))))))"

text \<open>A construction starts from an empty log.\<close>

definition construct ::
  "array2 \<Rightarrow> array2 \<Rightarrow> array2 \<Rightarrow> array4 \<Rightarrow> array2 \<Rightarrow> uint32_t \<Rightarrow> size_t \<Rightarrow> size_t
     \<Rightarrow> uint8_t \<Rightarrow> float32 \<Rightarrow> uint8_t \<Rightarrow> uint8_t \<Rightarrow> bool
     \<Rightarrow> log_entry list \<times> (fault + conv_param_t)" where
  "construct kernel_v stride_v dilation_v padding_v adjustment_v groups_v
       input_channels_v output_channels_v kernel_zp_v kernel_stride_v out_min_v out_max_v
       transpose_v =
     conv_param_t_ctor kernel_v stride_v dilation_v padding_v adjustment_v groups_v
       input_channels_v output_channels_v kernel_zp_v kernel_stride_v out_min_v out_max_v
       transpose_v []"

subsection \<open>\<open>compute_output_dims\<close>\<close>

text \<open>
  The two paddings of an axis are added as \<open>uint32_t\<close> values and the sum is widened to
  the \<open>size_t\<close> parameter; the other \<open>uint32_t\<close> fields are widened as they are.
\<close>

definition compute_output_dims :: "conv_param_t \<Rightarrow> size_t \<times> size_t \<Rightarrow> fault + size_t \<times> size_t" where
  "compute_output_dims p input_dims =
     (case compute_output_dimension (fst input_dims)
             (ucast (pad1 (padding p) + pad3 (padding p)))
             (ucast (at0 (adjustment_dims p)))
             (ucast (at0 (kernel_dims p)))
             (ucast (at0 (dilation p)))
             (ucast (at0 (stride_dims p)))
             (transpose_flag p) of
        Inl f \<Rightarrow> Inl f
      | Inr output_width \<Rightarrow>
          (case compute_output_dimension (snd input_dims)
                  (ucast (pad0 (padding p) + pad2 (padding p)))
                  (ucast (at1 (adjustment_dims p)))
                  (ucast (at1 (kernel_dims p)))
                  (ucast (at1 (dilation p)))
                  (ucast (at1 (stride_dims p)))
                  (transpose_flag p) of
             Inl f \<Rightarrow> Inl f
           | Inr output_height \<Rightarrow> Inr (output_width, output_height)))"


section \<open>The specification's wording, for comparison\<close>

text \<open>
  Section 4.3 of the specification, word for word, over any ring with a division. At
  \<open>size_t\<close> it is the formula in the machine arithmetic of the code; at \<open>int\<close> it is
  the formula over the integers, where \<open>div\<close> is the floor.
\<close>

definition spec_effective_kernel :: "'a :: comm_ring_1 \<Rightarrow> 'a \<Rightarrow> 'a" where
  "spec_effective_kernel kernel_dim dilation_dim = (kernel_dim - 1) * dilation_dim + 1"

definition spec_output_dim ::
  "'a :: {comm_ring_1, modulo} \<Rightarrow> 'a \<Rightarrow> 'a \<Rightarrow> 'a \<Rightarrow> 'a \<Rightarrow> 'a \<Rightarrow> bool \<Rightarrow> 'a" where
  "spec_output_dim input_dim pad_dim adjustment_dim kernel_dim dilation_dim stride_dim
       transpose_v =
     (let effective_kernel = spec_effective_kernel kernel_dim dilation_dim in
      if transpose_v then
        stride_dim * (input_dim - 1) + adjustment_dim + effective_kernel - pad_dim
      else (input_dim + pad_dim - effective_kernel) div stride_dim + 1)"


section \<open>Observing the log\<close>

text \<open>The error-severity messages of a log, in the order they were reported.\<close>

fun error_messages :: "log_entry list \<Rightarrow> message list" where
  "error_messages [] = []"
| "error_messages (Log Error m as # l) = m # error_messages l"
| "error_messages (Log Info m as # l) = error_messages l"

section \<open>Auxiliary facts\<close>

lemma unat_widen: "unat (ucast (x :: uint32_t) :: size_t) = unat x"
proof -
  have "unat x < 2 ^ 32" using unsigned_less [of x, where 'a = nat] by simp
  then have "unat x < 2 ^ 64" by simp
  then show ?thesis by (simp add: unsigned_ucast_eq take_bit_nat_eq_self)
qed

lemma ucast_groups_eq_0: "((ucast (g :: uint32_t) :: size_t) = 0) = (g = 0)"
  using unat_widen [of g] by (metis unat_eq_zero)

lemma and_then_error_check:
  "and_then (when_do c (and_then (pytorch_qnnp_log_error m as)
       (\<lambda>_. cxx_assert (string_literal_as_condition s)))) k l =
   k () (l @ (if c then [Log Error m as] else []))"
  by (simp add: and_then_def when_do_def pytorch_qnnp_log_error_def cxx_assert_def
      string_literal_as_condition_def return_value_def)

lemma and_then_info_check:
  "and_then (when_do c (pytorch_qnnp_log_info m as)) k l =
   k () (l @ (if c then [Log Info m as] else []))"
  by (simp add: and_then_def when_do_def pytorch_qnnp_log_info_def return_value_def)

lemma and_then_size_div:
  "b \<noteq> 0 \<Longrightarrow> and_then (size_div a b) k l = k (a div b) l"
  by (simp add: and_then_def size_div_def)

lemma and_then_channels_not_divisible:
  "g \<noteq> 0 \<Longrightarrow> and_then (channels_not_divisible ic oc g) k l =
     k (ic mod ucast g \<noteq> 0 \<or> oc mod ucast g \<noteq> 0) l"
  by (simp add: and_then_def channels_not_divisible_def size_mod_def return_value_def ucast_groups_eq_0)

lemma and_then_channels_zero_groups:
  "and_then (channels_not_divisible ic oc 0) k l = (l, Inl Division_by_zero)"
  by (simp add: and_then_def channels_not_divisible_def size_mod_def)

lemma construct_zero_groups:
  "construct kernel_v stride_v dilation_v padding_v adjustment_v 0
       input_channels_v output_channels_v kernel_zp_v kernel_stride_v out_min_v out_max_v
       transpose_v =
   ([Log Error Groups_zero [Str (if transpose_v then ''deconvolution'' else ''convolution'')]],
    Inl Division_by_zero)"
  unfolding construct_def conv_param_t_ctor_def Let_def
  by (simp only: and_then_error_check and_then_channels_zero_groups) simp

lemma construct_value:
  assumes "groups_v \<noteq> 0"
  shows "snd (construct kernel_v stride_v dilation_v padding_v adjustment_v groups_v
       input_channels_v output_channels_v kernel_zp_v kernel_stride_v out_min_v out_max_v
       transpose_v) =
    Inr \<lparr> kernel_dims = kernel_v,
          stride_dims = stride_v,
          dilation = dilation_v,
          padding = padding_v,
          adjustment_dims = adjustment_v,
          groups = groups_v,
          input_channels = input_channels_v,
          output_channels = output_channels_v,
          kernel_zero_point = kernel_zp_v,
          kernel_scale = kernel_stride_v,
          output_min = out_min_v,
          output_max = out_max_v,
          transpose_flag = transpose_v,
          ukernel_type =
            select_ukernel_type transpose_v kernel_v stride_v padding_v groups_v
              (input_channels_v div ucast groups_v) (output_channels_v div ucast groups_v),
          group_input_channels = input_channels_v div ucast groups_v,
          group_output_channels = output_channels_v div ucast groups_v \<rparr>"
  unfolding construct_def conv_param_t_ctor_def Let_def
  using assms
  by (simp only: and_then_error_check and_then_info_check and_then_size_div
        and_then_channels_not_divisible ucast_groups_eq_0 return_value_def not_False_eq_True snd_conv)

lemma construct_log:
  assumes "groups_v \<noteq> 0"
  shows "fst (construct kernel_v stride_v dilation_v padding_v adjustment_v groups_v
       input_channels_v output_channels_v kernel_zp_v kernel_stride_v out_min_v out_max_v
       transpose_v) =
    (let name = (if transpose_v then ''deconvolution'' else ''convolution'') in
     (if input_channels_v mod ucast groups_v \<noteq> 0 \<or> output_channels_v mod ucast groups_v \<noteq> 0
      then [Log Error Channels_not_divisible [Str name]] else []) @
     (if at0 kernel_v = 0 \<or> at1 kernel_v = 0
      then [Log Error Kernel_zero [Str name, U32 (at0 kernel_v), U32 (at1 kernel_v)]] else []) @
     (if at0 stride_v = 0 \<or> at1 stride_v = 0
      then [Log Error Subsampling_zero [Str name, U32 (at0 stride_v), U32 (at1 stride_v)]] else []) @
     (if at0 dilation_v = 0 \<or> at1 dilation_v = 0
      then [Log Error Dilation_zero [Str name, U32 (at0 dilation_v), U32 (at1 dilation_v)]] else []) @
     (if float_le_zero kernel_stride_v \<or> \<not> isnormal kernel_stride_v
      then [Log Error Kernel_scale_invalid [Str name, F32 kernel_stride_v]] else []) @
     (if at1 kernel_v < at1 stride_v
      then [Log Info Height_subsampling_gt_kernel
              [Str name, U32 (at0 kernel_v), U32 (at1 kernel_v),
               U32 (at0 stride_v), U32 (at1 stride_v), Str name]] else []) @
     (if at0 kernel_v < at0 stride_v
      then [Log Info Width_subsampling_gt_kernel
              [Str name, U32 (at0 kernel_v), U32 (at1 kernel_v),
               U32 (at0 stride_v), U32 (at1 stride_v), Str name]] else []) @
     (if at1 kernel_v \<le> pad0 padding_v
      then [Log Info Top_padding_ge_kernel
              [Str name, U32 (at0 kernel_v), U32 (at1 kernel_v),
               U32 (pad0 padding_v), U32 (pad2 padding_v)]] else []) @
     (if at1 kernel_v \<le> pad2 padding_v
      then [Log Info Bottom_padding_ge_kernel
              [Str name, U32 (at0 kernel_v), U32 (at1 kernel_v),
               U32 (pad0 padding_v), U32 (pad2 padding_v)]] else []) @
     (if at0 kernel_v \<le> pad3 padding_v
      then [Log Info Right_padding_ge_kernel
              [Str name, U32 (at0 kernel_v), U32 (at1 kernel_v),
               U32 (pad1 padding_v), U32 (pad3 padding_v)]] else []) @
     (if at0 kernel_v \<le> pad1 padding_v
      then [Log Info Left_padding_ge_kernel
              [Str name, U32 (at0 kernel_v), U32 (at1 kernel_v),
               U32 (pad1 padding_v), U32 (pad3 padding_v)]] else []))"
  unfolding construct_def conv_param_t_ctor_def Let_def
  using assms
  by (simp only: and_then_error_check and_then_info_check and_then_size_div
        and_then_channels_not_divisible ucast_groups_eq_0 return_value_def not_False_eq_True
        fst_conv if_False append_Nil append_assoc)


lemma construct_InrD:
  assumes "snd (construct kernel_v stride_v dilation_v padding_v adjustment_v groups_v
       input_channels_v output_channels_v kernel_zp_v kernel_stride_v out_min_v out_max_v
       transpose_v) = Inr obj"
  shows "groups_v \<noteq> 0"
    and "kernel_dims obj = kernel_v"
    and "stride_dims obj = stride_v"
    and "dilation obj = dilation_v"
    and "padding obj = padding_v"
    and "adjustment_dims obj = adjustment_v"
    and "groups obj = groups_v"
    and "input_channels obj = input_channels_v"
    and "output_channels obj = output_channels_v"
    and "transpose_flag obj = transpose_v"
    and "group_input_channels obj = input_channels_v div ucast groups_v"
    and "group_output_channels obj = output_channels_v div ucast groups_v"
    and "ukernel_type obj =
           select_ukernel_type transpose_v kernel_v stride_v padding_v groups_v
             (group_input_channels obj) (group_output_channels obj)"
proof -
  show nz: "groups_v \<noteq> 0"
  proof
    assume "groups_v = 0"
    with assms show False by (simp add: construct_zero_groups)
  qed
  from construct_value [OF nz] assms
  have obj: "obj = \<lparr> kernel_dims = kernel_v,
          stride_dims = stride_v,
          dilation = dilation_v,
          padding = padding_v,
          adjustment_dims = adjustment_v,
          groups = groups_v,
          input_channels = input_channels_v,
          output_channels = output_channels_v,
          kernel_zero_point = kernel_zp_v,
          kernel_scale = kernel_stride_v,
          output_min = out_min_v,
          output_max = out_max_v,
          transpose_flag = transpose_v,
          ukernel_type =
            select_ukernel_type transpose_v kernel_v stride_v padding_v groups_v
              (input_channels_v div ucast groups_v) (output_channels_v div ucast groups_v),
          group_input_channels = input_channels_v div ucast groups_v,
          group_output_channels = output_channels_v div ucast groups_v \<rparr>"
    by simp
  show "kernel_dims obj = kernel_v" by (simp add: obj)
  show "stride_dims obj = stride_v" by (simp add: obj)
  show "dilation obj = dilation_v" by (simp add: obj)
  show "padding obj = padding_v" by (simp add: obj)
  show "adjustment_dims obj = adjustment_v" by (simp add: obj)
  show "groups obj = groups_v" by (simp add: obj)
  show "input_channels obj = input_channels_v" by (simp add: obj)
  show "output_channels obj = output_channels_v" by (simp add: obj)
  show "transpose_flag obj = transpose_v" by (simp add: obj)
  show "group_input_channels obj = input_channels_v div ucast groups_v" by (simp add: obj)
  show "group_output_channels obj = output_channels_v div ucast groups_v" by (simp add: obj)
  show "ukernel_type obj =
           select_ukernel_type transpose_v kernel_v stride_v padding_v groups_v
             (group_input_channels obj) (group_output_channels obj)" by (simp add: obj)
qed

lemma construct_total:
  assumes "groups_v \<noteq> 0"
  shows "\<exists>l obj. construct kernel_v stride_v dilation_v padding_v adjustment_v groups_v
       input_channels_v output_channels_v kernel_zp_v kernel_stride_v out_min_v out_max_v
       transpose_v = (l, Inr obj)"
  using construct_value [OF assms, of kernel_v stride_v dilation_v padding_v adjustment_v
       input_channels_v output_channels_v kernel_zp_v kernel_stride_v out_min_v out_max_v
       transpose_v]
  by (metis prod.collapse)

lemma kernel_size_of_product:
  assumes "unat kw * unat kh = n" and "n < 2 ^ 32"
  shows "(ucast ((kh :: uint32_t) * kw) :: size_t) = of_nat n"
proof -
  have "kh * kw = of_nat (unat kh * unat kw)" by (rule word_arith_nat_mult)
  also have "\<dots> = (of_nat n :: uint32_t)" using assms(1) by (simp add: mult.commute)
  finally have "unat (kh * kw) = n" using assms(2) by (simp add: unat_of_nat take_bit_nat_eq_self)
  then have "unat (ucast (kh * kw) :: size_t) = n" by (simp add: unat_widen)
  moreover have "unat (of_nat n :: size_t) = n"
    using assms(2) by (simp add: unat_of_nat take_bit_nat_eq_self)
  ultimately show ?thesis by (simp add: word_unat_eq_iff)
qed

lemma select_transposed:
  "select_ukernel_type True kernel_v stride_v padding_v groups_v gic goc =
     pytorch_qnnp_ukernel_type_conv"
  by (simp add: select_ukernel_type_def)

lemma select_not_none:
  "select_ukernel_type transpose_v kernel_v stride_v padding_v groups_v gic goc \<noteq>
     pytorch_qnnp_ukernel_type_none"
  by (simp add: select_ukernel_type_def Let_def)

lemma select_dwconv:
  assumes "unat (at0 kernel_v) * unat (at1 kernel_v) = 9 \<or>
           unat (at0 kernel_v) * unat (at1 kernel_v) = 25"
    and "1 < groups_v"
  shows "select_ukernel_type False kernel_v stride_v padding_v groups_v 1 1 =
     pytorch_qnnp_ukernel_type_dwconv"
proof -
  from assms(1) have "(ucast (at1 kernel_v * at0 kernel_v) :: size_t) = 9 \<or>
      (ucast (at1 kernel_v * at0 kernel_v) :: size_t) = 25"
    using kernel_size_of_product [of "at0 kernel_v" "at1 kernel_v" 9]
      kernel_size_of_product [of "at0 kernel_v" "at1 kernel_v" 25]
    by auto
  then show ?thesis using assms(2) by (auto simp add: select_ukernel_type_def Let_def)
qed

lemma select_xzp_gemm_only_at_max:
  assumes "select_ukernel_type transpose_v kernel_v stride_v padding_v groups_v gic goc =
     pytorch_qnnp_ukernel_type_xzp_gemm"
  shows "gic = SIZE_MAX"
  using assms
  by (auto simp add: select_ukernel_type_def Let_def SIZE_MAX_def word_order.extremum_unique
      split: if_splits)

lemma select_gemm:
  assumes "unat (at0 kernel_v) * unat (at1 kernel_v) = 1"
    and "at0 stride_v = 1" and "at1 stride_v = 1"
    and "padding_v = (0, 0, 0, 0)"
    and "gic < SIZE_MAX"
  shows "select_ukernel_type False kernel_v stride_v padding_v groups_v gic goc =
     pytorch_qnnp_ukernel_type_gemm"
proof -
  have "(ucast (at1 kernel_v * at0 kernel_v) :: size_t) = 1"
    using kernel_size_of_product [of "at0 kernel_v" "at1 kernel_v" 1] assms(1) by simp
  moreover from assms(5) have "\<not> SIZE_MAX \<le> gic" by simp
  ultimately show ?thesis using assms(2-4)
    by (simp add: select_ukernel_type_def Let_def pad0_def pad1_def pad2_def pad3_def)
qed

lemma compute_output_dimension_machine:
  assumes "transpose_v \<or> stride_dim \<noteq> 0"
  shows "compute_output_dimension input_dim pad_dim adjustment_dim kernel_dim dilation_dim
           stride_dim transpose_v =
         Inr (spec_output_dim input_dim pad_dim adjustment_dim kernel_dim dilation_dim
           stride_dim transpose_v)"
  using assms
  by (auto simp add: compute_output_dimension_def spec_output_dim_def spec_effective_kernel_def
      Let_def)

lemma transposed_modulo:
  "uint (spec_output_dim (i :: size_t) p a k d s True) =
     spec_output_dim (uint i) (uint p) (uint a) (uint k) (uint d) (uint s) True mod 2 ^ 64"
  by (simp add: spec_output_dim_def spec_effective_kernel_def Let_def uint_word_ariths mod_simps)

lemma uint_pos:
  assumes "(x :: 'a :: len word) \<noteq> 0"
  shows "0 < uint x"
proof -
  have "uint x \<noteq> 0" using assms by (simp add: word_uint_eq_iff)
  moreover have "0 \<le> uint x" by simp
  ultimately show ?thesis by linarith
qed

lemma uint_effective_kernel:
  assumes "(k :: size_t) \<noteq> 0"
    and "spec_effective_kernel (uint k) (uint d) < 2 ^ 64"
  shows "uint (spec_effective_kernel k d) = spec_effective_kernel (uint k) (uint d)"
    and "1 \<le> spec_effective_kernel (uint k) (uint d)"
proof -
  have "1 \<le> uint k" using uint_pos [OF assms(1)] by simp
  then have "0 \<le> (uint k - 1) * uint d" by simp
  then show g: "1 \<le> spec_effective_kernel (uint k) (uint d)"
    by (simp add: spec_effective_kernel_def)
  have "uint (spec_effective_kernel k d) =
      spec_effective_kernel (uint k) (uint d) mod 2 ^ 64"
    by (simp add: spec_effective_kernel_def uint_word_ariths mod_simps)
  with g assms(2) show "uint (spec_effective_kernel k d) = spec_effective_kernel (uint k) (uint d)"
    by simp
qed

lemma non_transposed_exact:
  assumes "(k :: size_t) \<noteq> 0" and "s \<noteq> 0"
    and "uint i + uint p < 2 ^ 64"
    and "spec_effective_kernel (uint k) (uint d) \<le> uint i + uint p"
  shows "uint (spec_output_dim (i :: size_t) p a k d s False) =
     spec_output_dim (uint i) (uint p) (uint a) (uint k) (uint d) (uint s) False"
proof -
  let ?ek = "spec_effective_kernel (uint k) (uint d)"
  have ek: "uint (spec_effective_kernel k d) = ?ek" "1 \<le> ?ek"
    using uint_effective_kernel [OF assms(1), of d] assms(3,4) by simp_all
  have ip: "uint (i + p) = uint i + uint p"
    using assms(3) by (simp add: uint_word_ariths)
  have le: "spec_effective_kernel k d \<le> i + p"
    using assms(4) ek(1) ip by (simp add: word_le_def)
  have sub: "uint (i + p - spec_effective_kernel k d) = uint i + uint p - ?ek"
    using le ek(1) ip by (simp add: uint_minus_simple_alt)
  have q: "uint ((i + p - spec_effective_kernel k d) div s) = (uint i + uint p - ?ek) div uint s"
    using sub by (simp add: uint_div)
  have "0 < uint s" using assms(2) by (rule uint_pos)
  have "0 \<le> uint i + uint p - ?ek" using assms(4) by simp
  then have "(uint i + uint p - ?ek) div uint s \<le> uint i + uint p - ?ek"
    using \<open>0 < uint s\<close> zdiv_mono2 [of "uint i + uint p - ?ek" 1 "uint s"] by simp
  then have "(uint i + uint p - ?ek) div uint s + 1 < 2 ^ 64"
    using assms(3) ek(2) by simp
  moreover have "0 \<le> (uint i + uint p - ?ek) div uint s"
    using \<open>0 \<le> uint i + uint p - ?ek\<close> \<open>0 < uint s\<close> by (simp add: pos_imp_zdiv_nonneg_iff)
  ultimately have "uint ((i + p - spec_effective_kernel k d) div s + 1) =
      (uint i + uint p - ?ek) div uint s + 1"
    using q by (simp add: uint_word_ariths)
  then show ?thesis by (simp add: spec_output_dim_def Let_def)
qed


section \<open>Classification\<close>

text \<open>
  C2: a non-transposed configuration whose kernel width times kernel height is 9 or 25,
  with one input and one output channel per group and more than one group, is classified
  as dwconv. The instance of the specification (3x3 kernel, 4 groups of one channel) is
  the witness.
\<close>

theorem depthwise_classification:
  assumes "snd (construct kernel_v stride_v dilation_v padding_v adjustment_v groups_v
       input_channels_v output_channels_v kernel_zp_v kernel_stride_v out_min_v out_max_v
       transpose_v) = Inr obj"
    and "\<not> transpose_flag obj"
    and "unat (at0 (kernel_dims obj)) * unat (at1 (kernel_dims obj)) = 9 \<or>
         unat (at0 (kernel_dims obj)) * unat (at1 (kernel_dims obj)) = 25"
    and "group_input_channels obj = 1"
    and "group_output_channels obj = 1"
    and "1 < groups obj"
  shows "ukernel_type obj = pytorch_qnnp_ukernel_type_dwconv"
proof -
  note d = construct_InrD [OF assms(1)]
  from assms(2) d(10) have "transpose_v = False" by simp
  with d(13) assms(4,5)
  have "ukernel_type obj = select_ukernel_type False kernel_v stride_v padding_v groups_v 1 1"
    by simp
  also have "\<dots> = pytorch_qnnp_ukernel_type_dwconv"
    using assms(3,6) d(2,7) by (intro select_dwconv) simp_all
  finally show ?thesis .
qed

theorem depthwise_classification_witness:
  "\<exists>obj. snd (construct (3, 3) (1, 1) (1, 1) (0, 0, 0, 0) (0, 0) 4 4 4 0 1065353216 0 255 False)
            = Inr obj
      \<and> \<not> transpose_flag obj
      \<and> unat (at0 (kernel_dims obj)) * unat (at1 (kernel_dims obj)) = 9
      \<and> group_input_channels obj = 1 \<and> group_output_channels obj = 1 \<and> 1 < groups obj
      \<and> ukernel_type obj = pytorch_qnnp_ukernel_type_dwconv"
proof -
  have nz: "(4 :: uint32_t) \<noteq> 0" by simp
  obtain l obj where c: "construct (3, 3) (1, 1) (1, 1) (0, 0, 0, 0) (0, 0) 4 4 4 0 1065353216 0 255 False
      = (l, Inr obj)"
    using construct_total [OF nz] by blast
  then have s: "snd (construct (3, 3) (1, 1) (1, 1) (0, 0, 0, 0) (0, 0) 4 4 4 0 1065353216 0 255 False)
      = Inr obj" by simp
  note d = construct_InrD [OF s]
  have h2: "\<not> transpose_flag obj" using d(10) by simp
  have h3: "unat (at0 (kernel_dims obj)) * unat (at1 (kernel_dims obj)) = 9"
    using d(2) by (simp add: at0_def at1_def)
  have h4: "group_input_channels obj = 1" using d(11) by simp
  have h5: "group_output_channels obj = 1" using d(12) by simp
  have h6: "1 < groups obj" using d(7) by simp
  from depthwise_classification [OF s h2 disjI1 [OF h3] h4 h5 h6] s h2 h3 h4 h5 h6
  show ?thesis by blast
qed


text \<open>
  C3: a non-transposed configuration whose kernel width times kernel height is 1, with
  both strides 1, no padding on any side and fewer than \<open>SIZE_MAX\<close> input channels per
  group, is classified as gemm. A kernel of size 1 never satisfies the depthwise rule,
  so that condition of the claim needs no hypothesis. The instance of the specification
  (1x1 kernel, stride (1,1), no padding, one group, 64 and 128 channels) is the witness.
\<close>

theorem pointwise_classification:
  assumes "snd (construct kernel_v stride_v dilation_v padding_v adjustment_v groups_v
       input_channels_v output_channels_v kernel_zp_v kernel_stride_v out_min_v out_max_v
       transpose_v) = Inr obj"
    and "\<not> transpose_flag obj"
    and "unat (at0 (kernel_dims obj)) * unat (at1 (kernel_dims obj)) = 1"
    and "at0 (stride_dims obj) = 1" and "at1 (stride_dims obj) = 1"
    and "padding obj = (0, 0, 0, 0)"
    and "group_input_channels obj < SIZE_MAX"
  shows "ukernel_type obj = pytorch_qnnp_ukernel_type_gemm"
proof -
  note d = construct_InrD [OF assms(1)]
  from assms(2) d(10) have "transpose_v = False" by simp
  with d(13)
  have "ukernel_type obj = select_ukernel_type False kernel_v stride_v padding_v groups_v
          (group_input_channels obj) (group_output_channels obj)"
    by simp
  also have "\<dots> = pytorch_qnnp_ukernel_type_gemm"
    using assms(3-7) d(2,3,5) by (intro select_gemm) simp_all
  finally show ?thesis .
qed

theorem pointwise_classification_witness:
  "\<exists>obj. snd (construct (1, 1) (1, 1) (1, 1) (0, 0, 0, 0) (0, 0) 1 64 128 0 1065353216 0 255 False)
            = Inr obj
      \<and> \<not> transpose_flag obj
      \<and> unat (at0 (kernel_dims obj)) * unat (at1 (kernel_dims obj)) = 1
      \<and> at0 (stride_dims obj) = 1 \<and> at1 (stride_dims obj) = 1
      \<and> padding obj = (0, 0, 0, 0)
      \<and> group_input_channels obj = 64
      \<and> ukernel_type obj = pytorch_qnnp_ukernel_type_gemm"
proof -
  have nz: "(1 :: uint32_t) \<noteq> 0" by simp
  obtain l obj where "construct (1, 1) (1, 1) (1, 1) (0, 0, 0, 0) (0, 0) 1 64 128 0 1065353216 0 255 False
      = (l, Inr obj)"
    using construct_total [OF nz] by blast
  then have s: "snd (construct (1, 1) (1, 1) (1, 1) (0, 0, 0, 0) (0, 0) 1 64 128 0 1065353216 0 255 False)
      = Inr obj" by simp
  note d = construct_InrD [OF s]
  have h2: "\<not> transpose_flag obj" using d(10) by simp
  have h3: "unat (at0 (kernel_dims obj)) * unat (at1 (kernel_dims obj)) = 1"
    using d(2) by (simp add: at0_def at1_def)
  have h4: "at0 (stride_dims obj) = 1" using d(3) by (simp add: at0_def)
  have h5: "at1 (stride_dims obj) = 1" using d(3) by (simp add: at1_def)
  have h6: "padding obj = (0, 0, 0, 0)" using d(5) by simp
  have g: "group_input_channels obj = 64" using d(11) by simp
  then have h7: "group_input_channels obj < SIZE_MAX" by (simp add: SIZE_MAX_def)
  from pointwise_classification [OF s h2 h3 h4 h5 h6 h7] s h2 h3 h4 h5 h6 g
  show ?thesis by blast
qed

text \<open>
  The kernel size is a 32-bit product. A kernel of 3 by 2863311531 has the product
  \<open>2 * 2^32 + 1\<close>, which the code reads as 1, and is classified like a 1x1 kernel.
\<close>

lemma kernel_size_is_a_32_bit_product:
  "select_ukernel_type False (3, 2863311531) (1, 1) (0, 0, 0, 0) 1 8 8 =
     pytorch_qnnp_ukernel_type_gemm"
  by (simp add: select_ukernel_type_def Let_def at0_def at1_def pad0_def pad1_def pad2_def
      pad3_def SIZE_MAX_def word_order.extremum_unique)

text \<open>
  C4: with \<open>transpose = true\<close> the classification is conv whatever the other fields are.
  The classification block gives conv for every value of its other inputs, and every
  transposed construction that returns an object stores conv; a construction returns an
  object exactly when \<open>groups\<close> is not zero (with zero groups the remainder of line 103
  divides by zero before the classification is reached).
\<close>

theorem transposed_classification:
  "select_ukernel_type True kernel_v stride_v padding_v groups_v gic goc =
     pytorch_qnnp_ukernel_type_conv \<and>
   (groups_v \<noteq> 0 \<longrightarrow>
     (\<exists>l obj. construct kernel_v stride_v dilation_v padding_v adjustment_v groups_v
         input_channels_v output_channels_v kernel_zp_v kernel_stride_v out_min_v out_max_v
         True = (l, Inr obj) \<and> ukernel_type obj = pytorch_qnnp_ukernel_type_conv))"
proof (intro conjI impI)
  show "select_ukernel_type True kernel_v stride_v padding_v groups_v gic goc =
     pytorch_qnnp_ukernel_type_conv" by (rule select_transposed)
next
  assume nz: "groups_v \<noteq> 0"
  obtain l obj where c: "construct kernel_v stride_v dilation_v padding_v adjustment_v groups_v
         input_channels_v output_channels_v kernel_zp_v kernel_stride_v out_min_v out_max_v
         True = (l, Inr obj)"
    using construct_total [OF nz] by blast
  then have "snd (construct kernel_v stride_v dilation_v padding_v adjustment_v groups_v
         input_channels_v output_channels_v kernel_zp_v kernel_stride_v out_min_v out_max_v
         True) = Inr obj" by simp
  from construct_InrD(13) [OF this]
  have "ukernel_type obj = pytorch_qnnp_ukernel_type_conv" by (simp add: select_transposed)
  with c show "\<exists>l obj. construct kernel_v stride_v dilation_v padding_v adjustment_v groups_v
         input_channels_v output_channels_v kernel_zp_v kernel_stride_v out_min_v out_max_v
         True = (l, Inr obj) \<and> ukernel_type obj = pytorch_qnnp_ukernel_type_conv"
    by blast
qed

theorem transposed_classification_witness:
  "(4 :: uint32_t) \<noteq> 0 \<and>
   (\<exists>l obj. construct (3, 3) (1, 1) (1, 1) (0, 0, 0, 0) (0, 0) 4 4 4 0 1065353216 0 255
         True = (l, Inr obj) \<and> ukernel_type obj = pytorch_qnnp_ukernel_type_conv)"
proof -
  have nz: "(4 :: uint32_t) \<noteq> 0" by simp
  from transposed_classification [of "(3, 3)" "(1, 1)" "(0, 0, 0, 0)" 4 1 1 "(1, 1)" "(0, 0)"
      4 4 0 1065353216 0 255] nz
  show ?thesis by blast
qed

text \<open>
  C5: xzp\_gemm is selected only when \<open>group_input_channels\<close> is \<open>SIZE_MAX\<close>, the largest
  \<open>size_t\<close> value \<open>2^64 - 1\<close>: a constructed object with fewer input channels per group is
  never classified as xzp\_gemm.
\<close>

theorem xzp_gemm_only_at_size_max:
  assumes "snd (construct kernel_v stride_v dilation_v padding_v adjustment_v groups_v
       input_channels_v output_channels_v kernel_zp_v kernel_stride_v out_min_v out_max_v
       transpose_v) = Inr obj"
    and "group_input_channels obj < SIZE_MAX"
  shows "ukernel_type obj \<noteq> pytorch_qnnp_ukernel_type_xzp_gemm
         \<and> unat SIZE_MAX = 2 ^ 64 - 1"
proof -
  have "ukernel_type obj \<noteq> pytorch_qnnp_ukernel_type_xzp_gemm"
  proof
    assume "ukernel_type obj = pytorch_qnnp_ukernel_type_xzp_gemm"
    with construct_InrD(13) [OF assms(1)]
    have "group_input_channels obj = SIZE_MAX"
      by (metis select_xzp_gemm_only_at_max)
    with assms(2) show False by simp
  qed
  moreover have "unat SIZE_MAX = 2 ^ 64 - 1" by (simp add: SIZE_MAX_def unsigned_minus_1_eq_mask mask_eq_exp_minus_1)
  ultimately show ?thesis by simp
qed

theorem xzp_gemm_only_at_size_max_witness:
  "\<exists>obj. snd (construct (1, 1) (1, 1) (1, 1) (0, 0, 0, 0) (0, 0) 1 64 128 0 1065353216 0 255 False)
            = Inr obj
      \<and> group_input_channels obj < SIZE_MAX
      \<and> ukernel_type obj \<noteq> pytorch_qnnp_ukernel_type_xzp_gemm"
proof -
  have nz: "(1 :: uint32_t) \<noteq> 0" by simp
  obtain l obj where "construct (1, 1) (1, 1) (1, 1) (0, 0, 0, 0) (0, 0) 1 64 128 0 1065353216 0 255 False
      = (l, Inr obj)"
    using construct_total [OF nz] by blast
  then have s: "snd (construct (1, 1) (1, 1) (1, 1) (0, 0, 0, 0) (0, 0) 1 64 128 0 1065353216 0 255 False)
      = Inr obj" by simp
  have "group_input_channels obj = 64" using construct_InrD(11) [OF s] by simp
  then have h: "group_input_channels obj < SIZE_MAX" by (simp add: SIZE_MAX_def)
  from xzp_gemm_only_at_size_max [OF s h] s h show ?thesis by blast
qed

text \<open>
  The branch is not dead code: the one value \<open>SIZE_MAX\<close> of \<open>group_input_channels\<close>
  reaches it.
\<close>

lemma xzp_gemm_at_size_max:
  "select_ukernel_type False (1, 1) (1, 1) (0, 0, 0, 0) 1 SIZE_MAX goc =
     pytorch_qnnp_ukernel_type_xzp_gemm"
  by (simp add: select_ukernel_type_def Let_def at0_def at1_def pad0_def pad1_def pad2_def
      pad3_def SIZE_MAX_def)


lemma div_times_divisor:
  assumes "unat (n :: size_t) mod unat (g :: uint32_t) = 0"
  shows "n div ucast g * ucast g = n"
    and "unat (n div ucast g) * unat g = unat n"
proof -
  have "unat (n mod ucast g) = 0" using assms by (simp add: unat_mod unat_widen)
  then have "n mod ucast g = 0" by (simp add: unat_eq_zero)
  with word_mod_div_equality [of n "ucast g"]
  show "n div ucast g * ucast g = n" by simp
  from assms div_mult_mod_eq [of "unat n" "unat g"]
  show "unat (n div ucast g) * unat g = unat n"
    by (simp add: unat_div unat_widen)
qed

text \<open>
  C7: with \<open>groups > 0\<close> and both channel counts divisible by \<open>groups\<close>, construction
  returns an object that stores the \<open>groups\<close>, \<open>input_channels\<close> and \<open>output_channels\<close>
  it was given, and whose derived channel counts multiply back to those arguments:
  \<open>group_input_channels * groups = input_channels\<close> and
  \<open>group_output_channels * groups = output_channels\<close>, in \<open>size_t\<close> arithmetic and as
  natural numbers.
\<close>

theorem group_channels_times_groups:
  assumes "0 < groups_v"
    and "unat input_channels_v mod unat groups_v = 0"
    and "unat output_channels_v mod unat groups_v = 0"
  shows "\<exists>l obj. construct kernel_v stride_v dilation_v padding_v adjustment_v groups_v
       input_channels_v output_channels_v kernel_zp_v kernel_stride_v out_min_v out_max_v
       transpose_v = (l, Inr obj)
     \<and> groups obj = groups_v
     \<and> input_channels obj = input_channels_v
     \<and> output_channels obj = output_channels_v
     \<and> group_input_channels obj * ucast groups_v = input_channels_v
     \<and> group_output_channels obj * ucast groups_v = output_channels_v
     \<and> unat (group_input_channels obj) * unat groups_v = unat input_channels_v
     \<and> unat (group_output_channels obj) * unat groups_v = unat output_channels_v
     \<and> group_input_channels obj * ucast (groups obj) = input_channels obj
     \<and> group_output_channels obj * ucast (groups obj) = output_channels obj
     \<and> unat (group_input_channels obj) * unat (groups obj) = unat (input_channels obj)
     \<and> unat (group_output_channels obj) * unat (groups obj) = unat (output_channels obj)"
proof -
  from assms(1) have nz: "groups_v \<noteq> 0" by auto
  obtain l obj where c: "construct kernel_v stride_v dilation_v padding_v adjustment_v groups_v
       input_channels_v output_channels_v kernel_zp_v kernel_stride_v out_min_v out_max_v
       transpose_v = (l, Inr obj)"
    using construct_total [OF nz] by blast
  then have s: "snd (construct kernel_v stride_v dilation_v padding_v adjustment_v groups_v
       input_channels_v output_channels_v kernel_zp_v kernel_stride_v out_min_v out_max_v
       transpose_v) = Inr obj" by simp
  note d = construct_InrD [OF s]
  have g: "groups obj = groups_v" by (rule d(7))
  have i: "input_channels obj = input_channels_v" by (rule d(8))
  have o: "output_channels obj = output_channels_v" by (rule d(9))
  have wi: "group_input_channels obj * ucast groups_v = input_channels_v"
    using d(11) div_times_divisor(1) [OF assms(2)] by simp
  have wo: "group_output_channels obj * ucast groups_v = output_channels_v"
    using d(12) div_times_divisor(1) [OF assms(3)] by simp
  have ni: "unat (group_input_channels obj) * unat groups_v = unat input_channels_v"
    using d(11) div_times_divisor(2) [OF assms(2)] by simp
  have no: "unat (group_output_channels obj) * unat groups_v = unat output_channels_v"
    using d(12) div_times_divisor(2) [OF assms(3)] by simp
  have "groups obj = groups_v
     \<and> input_channels obj = input_channels_v
     \<and> output_channels obj = output_channels_v
     \<and> group_input_channels obj * ucast groups_v = input_channels_v
     \<and> group_output_channels obj * ucast groups_v = output_channels_v
     \<and> unat (group_input_channels obj) * unat groups_v = unat input_channels_v
     \<and> unat (group_output_channels obj) * unat groups_v = unat output_channels_v
     \<and> group_input_channels obj * ucast (groups obj) = input_channels obj
     \<and> group_output_channels obj * ucast (groups obj) = output_channels obj
     \<and> unat (group_input_channels obj) * unat (groups obj) = unat (input_channels obj)
     \<and> unat (group_output_channels obj) * unat (groups obj) = unat (output_channels obj)"
    using g i o wi wo ni no by simp
  with c show ?thesis by blast
qed

theorem group_channels_times_groups_witness:
  "(0 :: uint32_t) < 4 \<and> unat (12 :: size_t) mod unat (4 :: uint32_t) = 0
   \<and> unat (20 :: size_t) mod unat (4 :: uint32_t) = 0
   \<and> (\<exists>l obj. construct (3, 3) (1, 1) (1, 1) (0, 0, 0, 0) (0, 0) 4 12 20 0 1065353216 0 255
         False = (l, Inr obj)
     \<and> groups obj = 4 \<and> input_channels obj = 12 \<and> output_channels obj = 20
     \<and> group_input_channels obj = 3 \<and> group_output_channels obj = 5
     \<and> group_input_channels obj * 4 = 12
     \<and> group_output_channels obj * 4 = 20)"
proof -
  have h1: "(0 :: uint32_t) < 4" by simp
  have h2: "unat (12 :: size_t) mod unat (4 :: uint32_t) = 0" by simp
  have h3: "unat (20 :: size_t) mod unat (4 :: uint32_t) = 0" by simp
  from group_channels_times_groups [OF h1 h2 h3, of "(3, 3)" "(1, 1)" "(1, 1)" "(0, 0, 0, 0)"
      "(0, 0)" 0 1065353216 0 255 False]
  obtain l obj where c: "construct (3, 3) (1, 1) (1, 1) (0, 0, 0, 0) (0, 0) 4 12 20 0 1065353216
         0 255 False = (l, Inr obj)"
    and f: "groups obj = 4" "input_channels obj = 12" "output_channels obj = 20"
    and w: "group_input_channels obj * ucast (4 :: uint32_t) = 12"
       "group_output_channels obj * ucast (4 :: uint32_t) = 20"
    and n: "unat (group_input_channels obj) * unat (4 :: uint32_t) = unat (12 :: size_t)"
       "unat (group_output_channels obj) * unat (4 :: uint32_t) = unat (20 :: size_t)"
    by blast
  from n(1) have "unat (group_input_channels obj) = 3" by simp
  then have gi: "group_input_channels obj = 3" by (simp add: word_unat_eq_iff)
  from n(2) have "unat (group_output_channels obj) = 5" by simp
  then have go: "group_output_channels obj = 5" by (simp add: word_unat_eq_iff)
  from w have w': "group_input_channels obj * 4 = 12" "group_output_channels obj * 4 = 20"
    by simp_all
  from h1 h2 h3 c f gi go w' show ?thesis by blast
qed

text \<open>
  C8: the classification is a function of \<open>transpose\<close>, \<open>kernel_dims\<close>, \<open>stride_dims\<close>,
  \<open>padding\<close>, \<open>groups\<close> and the two derived channel counts alone. Two constructions
  that agree on these store the same \<open>ukernel_type\<close>, whatever their dilation, output
  adjustment, zero point, scale, clamp bounds and total channel counts are; and the
  stored value is \<open>select_ukernel_type\<close> of those seven inputs, which does not read the
  log, so no error or efficiency diagnostic changes it.
\<close>

theorem classification_depends_only_on_shape:
  assumes "snd (construct kernel_v stride_v dilation1 padding_v adjustment1 groups_v
       input_channels1 output_channels1 kernel_zp1 kernel_scale1 out_min1 out_max1
       transpose_v) = Inr obj1"
    and "snd (construct kernel_v stride_v dilation2 padding_v adjustment2 groups_v
       input_channels2 output_channels2 kernel_zp2 kernel_scale2 out_min2 out_max2
       transpose_v) = Inr obj2"
    and "group_input_channels obj1 = group_input_channels obj2"
    and "group_output_channels obj1 = group_output_channels obj2"
  shows "ukernel_type obj1 = ukernel_type obj2
     \<and> ukernel_type obj1 =
         select_ukernel_type transpose_v kernel_v stride_v padding_v groups_v
           (group_input_channels obj1) (group_output_channels obj1)"
  using construct_InrD(13) [OF assms(1)] construct_InrD(13) [OF assms(2)] assms(3,4)
  by simp

theorem classification_depends_only_on_shape_witness:
  "\<exists>obj1 obj2.
     snd (construct (1, 1) (2, 1) (1, 1) (0, 5, 0, 0) (0, 0) 2 8 6 0 1065353216 0 255 False)
       = Inr obj1
   \<and> snd (construct (1, 1) (2, 1) (3, 2) (0, 5, 0, 0) (1, 1) 2 9 7 7 0 200 100 False)
       = Inr obj2
   \<and> group_input_channels obj1 = group_input_channels obj2
   \<and> group_output_channels obj1 = group_output_channels obj2
   \<and> ukernel_type obj1 = ukernel_type obj2"
proof -
  have nz: "(2 :: uint32_t) \<noteq> 0" by simp
  obtain l1 obj1 where "construct (1, 1) (2, 1) (1, 1) (0, 5, 0, 0) (0, 0) 2 8 6 0 1065353216
      0 255 False = (l1, Inr obj1)"
    using construct_total [OF nz] by blast
  then have s1: "snd (construct (1, 1) (2, 1) (1, 1) (0, 5, 0, 0) (0, 0) 2 8 6 0 1065353216
      0 255 False) = Inr obj1" by simp
  obtain l2 obj2 where "construct (1, 1) (2, 1) (3, 2) (0, 5, 0, 0) (1, 1) 2 9 7 7 0 200 100
      False = (l2, Inr obj2)"
    using construct_total [OF nz] by blast
  then have s2: "snd (construct (1, 1) (2, 1) (3, 2) (0, 5, 0, 0) (1, 1) 2 9 7 7 0 200 100
      False) = Inr obj2" by simp
  have g1: "group_input_channels obj1 = group_input_channels obj2"
    using construct_InrD(11) [OF s1] construct_InrD(11) [OF s2] by simp
  have g2: "group_output_channels obj1 = group_output_channels obj2"
    using construct_InrD(12) [OF s1] construct_InrD(12) [OF s2] by simp
  from classification_depends_only_on_shape [OF s1 s2 g1 g2] s1 s2 g1 g2
  show ?thesis by blast
qed

text \<open>
  C9: the stored \<open>ukernel_type\<close> of a constructed object is gemm, xzp\_gemm, dwconv or
  conv and never none. The classification block yields one of the four for every value
  of its inputs, and a construction with non-zero \<open>groups\<close> returns an object (with zero
  groups the remainder of line 103 divides by zero and no object is constructed).
\<close>

theorem ukernel_type_never_none:
  "select_ukernel_type transpose_v kernel_v stride_v padding_v groups_v gic goc \<in>
     {pytorch_qnnp_ukernel_type_gemm, pytorch_qnnp_ukernel_type_xzp_gemm,
      pytorch_qnnp_ukernel_type_dwconv, pytorch_qnnp_ukernel_type_conv}
   \<and> (groups_v \<noteq> 0 \<longrightarrow>
        (\<exists>l obj. construct kernel_v stride_v dilation_v padding_v adjustment_v groups_v
           input_channels_v output_channels_v kernel_zp_v kernel_stride_v out_min_v out_max_v
           transpose_v = (l, Inr obj)))
   \<and> (\<forall>l obj. construct kernel_v stride_v dilation_v padding_v adjustment_v groups_v
           input_channels_v output_channels_v kernel_zp_v kernel_stride_v out_min_v out_max_v
           transpose_v = (l, Inr obj) \<longrightarrow>
         ukernel_type obj \<in>
           {pytorch_qnnp_ukernel_type_gemm, pytorch_qnnp_ukernel_type_xzp_gemm,
            pytorch_qnnp_ukernel_type_dwconv, pytorch_qnnp_ukernel_type_conv}
         \<and> ukernel_type obj \<noteq> pytorch_qnnp_ukernel_type_none)"
proof -
  have four: "select_ukernel_type t k s p g a b \<in>
     {pytorch_qnnp_ukernel_type_gemm, pytorch_qnnp_ukernel_type_xzp_gemm,
      pytorch_qnnp_ukernel_type_dwconv, pytorch_qnnp_ukernel_type_conv}" for t k s p g a b
    by (simp add: select_ukernel_type_def Let_def)
  have obj: "ukernel_type obj \<in>
           {pytorch_qnnp_ukernel_type_gemm, pytorch_qnnp_ukernel_type_xzp_gemm,
            pytorch_qnnp_ukernel_type_dwconv, pytorch_qnnp_ukernel_type_conv}
         \<and> ukernel_type obj \<noteq> pytorch_qnnp_ukernel_type_none"
    if "construct kernel_v stride_v dilation_v padding_v adjustment_v groups_v
           input_channels_v output_channels_v kernel_zp_v kernel_stride_v out_min_v out_max_v
           transpose_v = (l, Inr obj)" for l obj
  proof -
    from that have "snd (construct kernel_v stride_v dilation_v padding_v adjustment_v groups_v
           input_channels_v output_channels_v kernel_zp_v kernel_stride_v out_min_v out_max_v
           transpose_v) = Inr obj" by simp
    from construct_InrD(13) [OF this] show ?thesis
      using four select_not_none by simp
  qed
  show ?thesis
  proof (intro conjI impI allI)
    show "select_ukernel_type transpose_v kernel_v stride_v padding_v groups_v gic goc \<in>
     {pytorch_qnnp_ukernel_type_gemm, pytorch_qnnp_ukernel_type_xzp_gemm,
      pytorch_qnnp_ukernel_type_dwconv, pytorch_qnnp_ukernel_type_conv}" by (rule four)
  next
    assume "groups_v \<noteq> 0"
    then show "\<exists>l obj. construct kernel_v stride_v dilation_v padding_v adjustment_v groups_v
           input_channels_v output_channels_v kernel_zp_v kernel_stride_v out_min_v out_max_v
           transpose_v = (l, Inr obj)" by (rule construct_total)
  next
    fix l obj
    assume "construct kernel_v stride_v dilation_v padding_v adjustment_v groups_v
           input_channels_v output_channels_v kernel_zp_v kernel_stride_v out_min_v out_max_v
           transpose_v = (l, Inr obj)"
    from obj [OF this] show "ukernel_type obj \<in>
           {pytorch_qnnp_ukernel_type_gemm, pytorch_qnnp_ukernel_type_xzp_gemm,
            pytorch_qnnp_ukernel_type_dwconv, pytorch_qnnp_ukernel_type_conv}" by simp
  next
    fix l obj
    assume "construct kernel_v stride_v dilation_v padding_v adjustment_v groups_v
           input_channels_v output_channels_v kernel_zp_v kernel_stride_v out_min_v out_max_v
           transpose_v = (l, Inr obj)"
    from obj [OF this] show "ukernel_type obj \<noteq> pytorch_qnnp_ukernel_type_none" by simp
  qed
qed

theorem ukernel_type_never_none_witness:
  "(1 :: uint32_t) \<noteq> 0
   \<and> (\<exists>l obj. construct (3, 3) (1, 1) (1, 1) (0, 0, 0, 0) (0, 0) 1 8 8 0 1065353216 0 255
         False = (l, Inr obj)
        \<and> ukernel_type obj \<noteq> pytorch_qnnp_ukernel_type_none)"
proof -
  have nz: "(1 :: uint32_t) \<noteq> 0" by simp
  from ukernel_type_never_none [of False "(3, 3)" "(1, 1)" "(0, 0, 0, 0)" 1 8 8 "(1, 1)" "(0, 0)"
      8 8 0 1065353216 0 255] nz
  show ?thesis by blast
qed


lemma uint_widen: "uint (ucast (x :: uint32_t) :: size_t) = uint x"
  by (simp only: uint_nat unat_widen)

lemma uint_pad_sum:
  assumes "uint (a :: uint32_t) + uint (b :: uint32_t) < 2 ^ 32"
  shows "uint (a + b) = uint a + uint b"
  using assms by (simp add: uint_word_ariths)

section \<open>Output dimensions\<close>

text \<open>
  C6: for every input extent \<open>(w, h)\<close>, \<open>compute_output_dims\<close> returns, per axis, the
  formula of the specification evaluated in the arithmetic of the code: the width from
  \<open>padding[1] + padding[3]\<close> (a 32-bit sum) and index 0 of the adjustment, kernel,
  dilation and stride arrays, the height from \<open>padding[0] + padding[2]\<close> and index 1.
  It returns whenever the configuration is transposed or both strides are non-zero.
  In the non-transposed branch, under the caller precondition
  \<open>effective_kernel \<le> input_dim + pad_dim\<close> and when neither the padding sum nor
  \<open>input_dim + pad_dim\<close> overflows, the result is the integer
  \<open>floor ((input_dim + pad_dim - effective_kernel) / stride_dim) + 1\<close>.
  The two instances of the specification, (7,7) to (3,3) and transposed (3,3) to (7,7),
  are the witness.
\<close>

theorem compute_output_dims_formula:
  assumes "transpose_flag p \<or> (at0 (stride_dims p) \<noteq> 0 \<and> at1 (stride_dims p) \<noteq> 0)"
  shows "\<exists>ow oh. compute_output_dims p (w, h) = Inr (ow, oh)
    \<and> ow = spec_output_dim w (ucast (pad1 (padding p) + pad3 (padding p)))
             (ucast (at0 (adjustment_dims p))) (ucast (at0 (kernel_dims p)))
             (ucast (at0 (dilation p))) (ucast (at0 (stride_dims p))) (transpose_flag p)
    \<and> oh = spec_output_dim h (ucast (pad0 (padding p) + pad2 (padding p)))
             (ucast (at1 (adjustment_dims p))) (ucast (at1 (kernel_dims p)))
             (ucast (at1 (dilation p))) (ucast (at1 (stride_dims p))) (transpose_flag p)
    \<and> (\<not> transpose_flag p \<and> at0 (kernel_dims p) \<noteq> 0
         \<and> uint (pad1 (padding p)) + uint (pad3 (padding p)) < 2 ^ 32
         \<and> uint w + (uint (pad1 (padding p)) + uint (pad3 (padding p))) < 2 ^ 64
         \<and> spec_effective_kernel (uint (at0 (kernel_dims p))) (uint (at0 (dilation p)))
              \<le> uint w + (uint (pad1 (padding p)) + uint (pad3 (padding p)))
       \<longrightarrow> uint ow =
             spec_output_dim (uint w) (uint (pad1 (padding p)) + uint (pad3 (padding p)))
               (uint (at0 (adjustment_dims p))) (uint (at0 (kernel_dims p)))
               (uint (at0 (dilation p))) (uint (at0 (stride_dims p))) False)
    \<and> (\<not> transpose_flag p \<and> at1 (kernel_dims p) \<noteq> 0
         \<and> uint (pad0 (padding p)) + uint (pad2 (padding p)) < 2 ^ 32
         \<and> uint h + (uint (pad0 (padding p)) + uint (pad2 (padding p))) < 2 ^ 64
         \<and> spec_effective_kernel (uint (at1 (kernel_dims p))) (uint (at1 (dilation p)))
              \<le> uint h + (uint (pad0 (padding p)) + uint (pad2 (padding p)))
       \<longrightarrow> uint oh =
             spec_output_dim (uint h) (uint (pad0 (padding p)) + uint (pad2 (padding p)))
               (uint (at1 (adjustment_dims p))) (uint (at1 (kernel_dims p)))
               (uint (at1 (dilation p))) (uint (at1 (stride_dims p))) False)"
proof -
  let ?ow = "spec_output_dim w (ucast (pad1 (padding p) + pad3 (padding p)))
             (ucast (at0 (adjustment_dims p))) (ucast (at0 (kernel_dims p)))
             (ucast (at0 (dilation p))) (ucast (at0 (stride_dims p))) (transpose_flag p)"
  let ?oh = "spec_output_dim h (ucast (pad0 (padding p) + pad2 (padding p)))
             (ucast (at1 (adjustment_dims p))) (ucast (at1 (kernel_dims p)))
             (ucast (at1 (dilation p))) (ucast (at1 (stride_dims p))) (transpose_flag p)"
  have sw: "transpose_flag p \<or> (ucast (at0 (stride_dims p)) :: size_t) \<noteq> 0"
    using assms by (auto simp add: ucast_groups_eq_0)
  have sh: "transpose_flag p \<or> (ucast (at1 (stride_dims p)) :: size_t) \<noteq> 0"
    using assms by (auto simp add: ucast_groups_eq_0)
  have dims: "compute_output_dims p (w, h) = Inr (?ow, ?oh)"
    unfolding compute_output_dims_def
    by (simp add: compute_output_dimension_machine [OF sw] compute_output_dimension_machine [OF sh])
  have exact_w: "uint ?ow =
             spec_output_dim (uint w) (uint (pad1 (padding p)) + uint (pad3 (padding p)))
               (uint (at0 (adjustment_dims p))) (uint (at0 (kernel_dims p)))
               (uint (at0 (dilation p))) (uint (at0 (stride_dims p))) False"
    if nt: "\<not> transpose_flag p" and k: "at0 (kernel_dims p) \<noteq> 0"
      and pd: "uint (pad1 (padding p)) + uint (pad3 (padding p)) < 2 ^ 32"
      and ip: "uint w + (uint (pad1 (padding p)) + uint (pad3 (padding p))) < 2 ^ 64"
      and ek: "spec_effective_kernel (uint (at0 (kernel_dims p))) (uint (at0 (dilation p)))
              \<le> uint w + (uint (pad1 (padding p)) + uint (pad3 (padding p)))"
  proof -
    have s: "(ucast (at0 (stride_dims p)) :: size_t) \<noteq> 0" using sw nt by simp
    have k': "(ucast (at0 (kernel_dims p)) :: size_t) \<noteq> 0" using k by (simp add: ucast_groups_eq_0)
    note e = non_transposed_exact [OF k' s, of w "ucast (pad1 (padding p) + pad3 (padding p))"
          "ucast (at0 (dilation p))" "ucast (at0 (adjustment_dims p))",
          unfolded uint_widen uint_pad_sum [OF pd], OF ip ek]
    show ?thesis using e nt by simp
  qed
  have exact_h: "uint ?oh =
             spec_output_dim (uint h) (uint (pad0 (padding p)) + uint (pad2 (padding p)))
               (uint (at1 (adjustment_dims p))) (uint (at1 (kernel_dims p)))
               (uint (at1 (dilation p))) (uint (at1 (stride_dims p))) False"
    if nt: "\<not> transpose_flag p" and k: "at1 (kernel_dims p) \<noteq> 0"
      and pd: "uint (pad0 (padding p)) + uint (pad2 (padding p)) < 2 ^ 32"
      and ip: "uint h + (uint (pad0 (padding p)) + uint (pad2 (padding p))) < 2 ^ 64"
      and ek: "spec_effective_kernel (uint (at1 (kernel_dims p))) (uint (at1 (dilation p)))
              \<le> uint h + (uint (pad0 (padding p)) + uint (pad2 (padding p)))"
  proof -
    have s: "(ucast (at1 (stride_dims p)) :: size_t) \<noteq> 0" using sh nt by simp
    have k': "(ucast (at1 (kernel_dims p)) :: size_t) \<noteq> 0" using k by (simp add: ucast_groups_eq_0)
    note e = non_transposed_exact [OF k' s, of h "ucast (pad0 (padding p) + pad2 (padding p))"
          "ucast (at1 (dilation p))" "ucast (at1 (adjustment_dims p))",
          unfolded uint_widen uint_pad_sum [OF pd], OF ip ek]
    show ?thesis using e nt by simp
  qed
  show ?thesis
    apply (rule exI [of _ ?ow])
    apply (rule exI [of _ ?oh])
    using dims exact_w exact_h by blast
qed

theorem compute_output_dims_formula_witness:
  "(\<exists>obj. snd (construct (3, 3) (2, 2) (1, 1) (0, 0, 0, 0) (0, 0) 1 1 1 0 1065353216 0 255
              False) = Inr obj
      \<and> at0 (stride_dims obj) \<noteq> 0 \<and> at1 (stride_dims obj) \<noteq> 0
      \<and> \<not> transpose_flag obj \<and> at0 (kernel_dims obj) \<noteq> 0 \<and> at1 (kernel_dims obj) \<noteq> 0
      \<and> spec_effective_kernel (uint (at0 (kernel_dims obj))) (uint (at0 (dilation obj)))
            \<le> uint (7 :: size_t) + (uint (pad1 (padding obj)) + uint (pad3 (padding obj)))
      \<and> spec_effective_kernel (uint (at1 (kernel_dims obj))) (uint (at1 (dilation obj)))
            \<le> uint (7 :: size_t) + (uint (pad0 (padding obj)) + uint (pad2 (padding obj)))
      \<and> compute_output_dims obj (7, 7) = Inr (3, 3))
   \<and> (\<exists>obj. snd (construct (3, 3) (2, 2) (1, 1) (0, 0, 0, 0) (0, 0) 1 1 1 0 1065353216 0 255
              True) = Inr obj
      \<and> transpose_flag obj
      \<and> compute_output_dims obj (3, 3) = Inr (7, 7))"
proof -
  have nz: "(1 :: uint32_t) \<noteq> 0" by simp
  have first: "\<exists>obj. snd (construct (3, 3) (2, 2) (1, 1) (0, 0, 0, 0) (0, 0) 1 1 1 0 1065353216 0 255
              False) = Inr obj
      \<and> at0 (stride_dims obj) \<noteq> 0 \<and> at1 (stride_dims obj) \<noteq> 0
      \<and> \<not> transpose_flag obj \<and> at0 (kernel_dims obj) \<noteq> 0 \<and> at1 (kernel_dims obj) \<noteq> 0
      \<and> spec_effective_kernel (uint (at0 (kernel_dims obj))) (uint (at0 (dilation obj)))
            \<le> uint (7 :: size_t) + (uint (pad1 (padding obj)) + uint (pad3 (padding obj)))
      \<and> spec_effective_kernel (uint (at1 (kernel_dims obj))) (uint (at1 (dilation obj)))
            \<le> uint (7 :: size_t) + (uint (pad0 (padding obj)) + uint (pad2 (padding obj)))
      \<and> compute_output_dims obj (7, 7) = Inr (3, 3)"
  proof -
    obtain l obj where "construct (3, 3) (2, 2) (1, 1) (0, 0, 0, 0) (0, 0) 1 1 1 0 1065353216 0
        255 False = (l, Inr obj)"
      using construct_total [OF nz] by blast
    then have s: "snd (construct (3, 3) (2, 2) (1, 1) (0, 0, 0, 0) (0, 0) 1 1 1 0 1065353216 0
        255 False) = Inr obj" by simp
    note d = construct_InrD [OF s]
    have f: "kernel_dims obj = (3, 3)" "stride_dims obj = (2, 2)" "dilation obj = (1, 1)"
      "padding obj = (0, 0, 0, 0)" "adjustment_dims obj = (0, 0)" "\<not> transpose_flag obj"
      using d by simp_all
    have st: "at0 (stride_dims obj) \<noteq> 0" "at1 (stride_dims obj) \<noteq> 0"
      by (simp_all add: f at0_def at1_def)
    have k: "at0 (kernel_dims obj) \<noteq> 0" "at1 (kernel_dims obj) \<noteq> 0"
      by (simp_all add: f at0_def at1_def)
    have e: "spec_effective_kernel (uint (at0 (kernel_dims obj))) (uint (at0 (dilation obj)))
            \<le> uint (7 :: size_t) + (uint (pad1 (padding obj)) + uint (pad3 (padding obj)))"
      "spec_effective_kernel (uint (at1 (kernel_dims obj))) (uint (at1 (dilation obj)))
            \<le> uint (7 :: size_t) + (uint (pad0 (padding obj)) + uint (pad2 (padding obj)))"
      by (simp_all add: f at0_def at1_def pad0_def pad1_def pad2_def pad3_def
          spec_effective_kernel_def)
    from compute_output_dims_formula [of obj 7 7] st
    obtain ow oh where r: "compute_output_dims obj (7, 7) = Inr (ow, oh)"
      and ow: "ow = spec_output_dim 7 (ucast (pad1 (padding obj) + pad3 (padding obj)))
             (ucast (at0 (adjustment_dims obj))) (ucast (at0 (kernel_dims obj)))
             (ucast (at0 (dilation obj))) (ucast (at0 (stride_dims obj))) (transpose_flag obj)"
      and oh: "oh = spec_output_dim 7 (ucast (pad0 (padding obj) + pad2 (padding obj)))
             (ucast (at1 (adjustment_dims obj))) (ucast (at1 (kernel_dims obj)))
             (ucast (at1 (dilation obj))) (ucast (at1 (stride_dims obj))) (transpose_flag obj)"
      by blast
    have "ow = 3"
      unfolding ow
      by (simp add: f at0_def at1_def pad0_def pad1_def pad2_def pad3_def
          spec_output_dim_def spec_effective_kernel_def)
    moreover have "oh = 3"
      unfolding oh
      by (simp add: f at0_def at1_def pad0_def pad1_def pad2_def pad3_def
          spec_output_dim_def spec_effective_kernel_def)
    ultimately have "compute_output_dims obj (7, 7) = Inr (3, 3)" using r by simp
    with s st k e f(6) show ?thesis by blast
  qed
  have second: "\<exists>obj. snd (construct (3, 3) (2, 2) (1, 1) (0, 0, 0, 0) (0, 0) 1 1 1 0 1065353216 0 255
              True) = Inr obj
      \<and> transpose_flag obj
      \<and> compute_output_dims obj (3, 3) = Inr (7, 7)"
  proof -
    obtain l obj where "construct (3, 3) (2, 2) (1, 1) (0, 0, 0, 0) (0, 0) 1 1 1 0 1065353216 0
        255 True = (l, Inr obj)"
      using construct_total [OF nz] by blast
    then have s: "snd (construct (3, 3) (2, 2) (1, 1) (0, 0, 0, 0) (0, 0) 1 1 1 0 1065353216 0
        255 True) = Inr obj" by simp
    note d = construct_InrD [OF s]
    have f: "kernel_dims obj = (3, 3)" "stride_dims obj = (2, 2)" "dilation obj = (1, 1)"
      "padding obj = (0, 0, 0, 0)" "adjustment_dims obj = (0, 0)" "transpose_flag obj"
      using d by simp_all
    from compute_output_dims_formula [of obj 3 3] f(6)
    obtain ow oh where r: "compute_output_dims obj (3, 3) = Inr (ow, oh)"
      and ow: "ow = spec_output_dim 3 (ucast (pad1 (padding obj) + pad3 (padding obj)))
             (ucast (at0 (adjustment_dims obj))) (ucast (at0 (kernel_dims obj)))
             (ucast (at0 (dilation obj))) (ucast (at0 (stride_dims obj))) (transpose_flag obj)"
      and oh: "oh = spec_output_dim 3 (ucast (pad0 (padding obj) + pad2 (padding obj)))
             (ucast (at1 (adjustment_dims obj))) (ucast (at1 (kernel_dims obj)))
             (ucast (at1 (dilation obj))) (ucast (at1 (stride_dims obj))) (transpose_flag obj)"
      by blast
    have "ow = 7"
      unfolding ow
      by (simp add: f at0_def at1_def pad0_def pad1_def pad2_def pad3_def
          spec_output_dim_def spec_effective_kernel_def)
    moreover have "oh = 7"
      unfolding oh
      by (simp add: f at0_def at1_def pad0_def pad1_def pad2_def pad3_def
          spec_output_dim_def spec_effective_kernel_def)
    ultimately have "compute_output_dims obj (3, 3) = Inr (7, 7)" using r by simp
    with s f(6) show ?thesis by blast
  qed
  from first second show ?thesis by (rule conjI)
qed

text \<open>
  C10: the transposed branch never fails and computes
  \<open>stride_dim * (input_dim - 1) + adjustment_dim + effective_kernel - pad_dim\<close> modulo
  \<open>2^64\<close>. With \<open>input_dim \<ge> 1\<close> and \<open>pad_dim\<close> at most
  \<open>stride_dim * (input_dim - 1) + adjustment_dim + effective_kernel\<close> (and the value
  below \<open>2^64\<close>) the result is the integer value of the formula; with \<open>pad_dim\<close> larger
  than that it is the integer value plus \<open>2^64\<close>. Input dimension 0 with stride 2 and
  a 1x1 kernel, and padding 2 on an input of 1, both give \<open>2^64 - 1\<close>.
\<close>

theorem transposed_dimension_wraps:
  "(\<exists>r. compute_output_dimension i p a k d s True = Inr r
      \<and> uint r = spec_output_dim (uint i) (uint p) (uint a) (uint k) (uint d) (uint s) True
                   mod 2 ^ 64
      \<and> (1 \<le> uint i
           \<and> uint p \<le> uint s * (uint i - 1) + uint a + spec_effective_kernel (uint k) (uint d)
           \<and> spec_output_dim (uint i) (uint p) (uint a) (uint k) (uint d) (uint s) True < 2 ^ 64
         \<longrightarrow> uint r = spec_output_dim (uint i) (uint p) (uint a) (uint k) (uint d) (uint s) True)
      \<and> (1 \<le> uint i \<and> k \<noteq> 0
           \<and> uint s * (uint i - 1) + uint a + spec_effective_kernel (uint k) (uint d) < uint p
         \<longrightarrow> uint r = spec_output_dim (uint i) (uint p) (uint a) (uint k) (uint d) (uint s) True
                          + 2 ^ 64))
   \<and> compute_output_dimension 0 0 0 1 1 2 True = Inr (- 1)
   \<and> compute_output_dimension 1 2 0 1 1 1 True = Inr (- 1)
   \<and> uint (- 1 :: size_t) = 2 ^ 64 - 1"
proof -
  let ?r = "spec_output_dim i p a k d s True"
  let ?S = "spec_output_dim (uint i) (uint p) (uint a) (uint k) (uint d) (uint s) True"
  let ?X = "uint s * (uint i - 1) + uint a + spec_effective_kernel (uint k) (uint d)"
  have S: "?S = ?X - uint p" by (simp add: spec_output_dim_def Let_def)
  have r: "compute_output_dimension i p a k d s True = Inr ?r"
    by (simp add: compute_output_dimension_machine)
  have m: "uint ?r = ?S mod 2 ^ 64" by (rule transposed_modulo)
  have exact: "uint ?r = ?S" if "1 \<le> uint i" "uint p \<le> ?X" "?S < 2 ^ 64"
  proof -
    from that(2) have "0 \<le> ?S" by (simp add: S)
    with that(3) m show ?thesis by simp
  qed
  have wrapped: "uint ?r = ?S + 2 ^ 64" if i: "1 \<le> uint i" and k: "k \<noteq> 0" and lt: "?X < uint p"
  proof -
    have "1 \<le> uint k" using uint_pos [OF k] by simp
    then have "0 \<le> (uint k - 1) * uint d" by simp
    then have "1 \<le> spec_effective_kernel (uint k) (uint d)"
      by (simp add: spec_effective_kernel_def)
    moreover have "0 \<le> uint s * (uint i - 1)" using i by simp
    moreover have "0 \<le> uint a" by simp
    ultimately have "1 \<le> ?X" by linarith
    moreover have "uint p < 2 ^ 64" using uint_lt2p [of p] by simp
    ultimately have lo: "- (2 ^ 64) \<le> ?S" by (simp add: S)
    have hi: "?S < 0" using lt by (simp add: S)
    have "?S mod 2 ^ 64 = (?S + 2 ^ 64) mod 2 ^ 64" by simp
    also have "\<dots> = ?S + 2 ^ 64" using lo hi by (intro mod_pos_pos_trivial) simp_all
    finally show ?thesis using m by simp
  qed
  have e1: "compute_output_dimension 0 0 0 1 1 2 True = Inr (- 1)"
    by (simp add: compute_output_dimension_def)
  have e2: "compute_output_dimension 1 2 0 1 1 1 True = Inr (- 1)"
    by (simp add: compute_output_dimension_def)
  have e3: "uint (- 1 :: size_t) = 2 ^ 64 - 1"
    by (simp add: unsigned_minus_1_eq_mask mask_eq_exp_minus_1)
  from r m exact wrapped e1 e2 e3 show ?thesis by blast
qed

theorem transposed_dimension_wraps_witness:
  "(1 \<le> uint (3 :: size_t)
     \<and> uint (0 :: size_t) \<le> uint (2 :: size_t) * (uint (3 :: size_t) - 1) + uint (0 :: size_t)
          + spec_effective_kernel (uint (3 :: size_t)) (uint (1 :: size_t))
     \<and> compute_output_dimension 3 0 0 3 1 2 True = Inr 7)
   \<and> (1 \<le> uint (1 :: size_t) \<and> (1 :: size_t) \<noteq> 0
     \<and> uint (1 :: size_t) * (uint (1 :: size_t) - 1) + uint (0 :: size_t)
          + spec_effective_kernel (uint (1 :: size_t)) (uint (1 :: size_t)) < uint (2 :: size_t)
     \<and> (\<exists>r. compute_output_dimension 1 2 0 1 1 1 True = Inr r \<and> uint r = - 1 + 2 ^ 64))"
proof -
  from transposed_dimension_wraps [of 3 0 0 3 1 2]
  obtain r where r: "compute_output_dimension 3 0 0 3 1 2 True = Inr r"
    and "1 \<le> uint (3 :: size_t)
           \<and> uint (0 :: size_t) \<le> uint (2 :: size_t) * (uint (3 :: size_t) - 1) + uint (0 :: size_t)
                + spec_effective_kernel (uint (3 :: size_t)) (uint (1 :: size_t))
           \<and> spec_output_dim (uint (3 :: size_t)) (uint (0 :: size_t)) (uint (0 :: size_t))
               (uint (3 :: size_t)) (uint (1 :: size_t)) (uint (2 :: size_t)) True < 2 ^ 64
         \<longrightarrow> uint r = spec_output_dim (uint (3 :: size_t)) (uint (0 :: size_t)) (uint (0 :: size_t))
               (uint (3 :: size_t)) (uint (1 :: size_t)) (uint (2 :: size_t)) True"
    by blast
  then have "uint r = 7" by (simp add: spec_output_dim_def spec_effective_kernel_def)
  then have "r = 7" by (simp add: word_uint_eq_iff)
  with r have a: "compute_output_dimension 3 0 0 3 1 2 True = Inr 7" by simp
  from transposed_dimension_wraps [of 1 2 0 1 1 1]
  obtain r' where r': "compute_output_dimension 1 2 0 1 1 1 True = Inr r'"
    and "1 \<le> uint (1 :: size_t) \<and> (1 :: size_t) \<noteq> 0
           \<and> uint (1 :: size_t) * (uint (1 :: size_t) - 1) + uint (0 :: size_t)
                + spec_effective_kernel (uint (1 :: size_t)) (uint (1 :: size_t)) < uint (2 :: size_t)
         \<longrightarrow> uint r' = spec_output_dim (uint (1 :: size_t)) (uint (2 :: size_t)) (uint (0 :: size_t))
               (uint (1 :: size_t)) (uint (1 :: size_t)) (uint (1 :: size_t)) True + 2 ^ 64"
    by blast
  then have "uint r' = - 1 + 2 ^ 64" by (simp add: spec_output_dim_def spec_effective_kernel_def)
  with r' have b: "\<exists>r. compute_output_dimension 1 2 0 1 1 1 True = Inr r \<and> uint r = - 1 + 2 ^ 64"
    by blast
  show ?thesis using a b by (simp add: spec_effective_kernel_def)
qed


lemma error_messages_append:
  "error_messages (xs @ ys) = error_messages xs @ error_messages ys"
  by (induction xs rule: error_messages.induct) simp_all

lemma error_messages_error_check:
  "error_messages (if c then [Log Error m as] else []) = (if c then [m] else [])"
  by simp

lemma error_messages_info_check:
  "error_messages (if c then [Log Info m as] else []) = []"
  by simp

lemma scale_check_iff:
  "(float_le_zero x \<or> \<not> isnormal x) =
     (float_sign x \<or> float_exponent x = 0 \<or> float_exponent x = 255)"
  by (auto simp add: float_le_zero_def isnormal_def float_isnan_def float_iszero_def)

lemma channel_check_iff:
  "((ic :: size_t) mod ucast (g :: uint32_t) \<noteq> 0 \<or> (oc :: size_t) mod ucast g \<noteq> 0) =
     (unat ic mod unat g \<noteq> 0 \<or> unat oc mod unat g \<noteq> 0)"
proof -
  have h: "(n mod ucast g = 0) = (unat n mod unat g = 0)" for n :: size_t
    using unat_mod [of n "ucast g"] by (simp add: unat_widen word_unat_eq_iff)
  show ?thesis by (simp only: h)
qed

lemma construct_error_messages:
  assumes "groups_v \<noteq> 0"
  shows "error_messages (fst (construct kernel_v stride_v dilation_v padding_v adjustment_v
       groups_v input_channels_v output_channels_v kernel_zp_v kernel_stride_v out_min_v
       out_max_v transpose_v)) =
     (if unat input_channels_v mod unat groups_v \<noteq> 0 \<or>
         unat output_channels_v mod unat groups_v \<noteq> 0
      then [Channels_not_divisible] else []) @
     (if at0 kernel_v = 0 \<or> at1 kernel_v = 0 then [Kernel_zero] else []) @
     (if at0 stride_v = 0 \<or> at1 stride_v = 0 then [Subsampling_zero] else []) @
     (if at0 dilation_v = 0 \<or> at1 dilation_v = 0 then [Dilation_zero] else []) @
     (if float_sign kernel_stride_v \<or> float_exponent kernel_stride_v = 0 \<or>
         float_exponent kernel_stride_v = 255
      then [Kernel_scale_invalid] else [])"
  unfolding construct_log [OF assms] Let_def
  by (simp only: error_messages_append error_messages_error_check error_messages_info_check
      append_Nil2 scale_check_iff channel_check_iff)

section \<open>Construction and the hard invariants\<close>

text \<open>
  C1, as stated, does not hold: the constructor has no error result, every \<open>assert\<close>
  is given a string literal and so never fires, and construction goes on after the
  error has been logged. With \<open>input_channels = 10\<close> and \<open>groups = 3\<close> it logs the
  divisibility error and returns an object with 3 input channels per group.
\<close>

theorem construction_continues_counterexample:
  "construct (3, 3) (1, 1) (1, 1) (0, 0, 0, 0) (0, 0) 3 10 10 0 1065353216 0 255 False =
     ([Log Error Channels_not_divisible [Str ''convolution'']],
      Inr \<lparr> kernel_dims = (3, 3),
            stride_dims = (1, 1),
            dilation = (1, 1),
            padding = (0, 0, 0, 0),
            adjustment_dims = (0, 0),
            groups = 3,
            input_channels = 10,
            output_channels = 10,
            kernel_zero_point = 0,
            kernel_scale = 1065353216,
            output_min = 0,
            output_max = 255,
            transpose_flag = False,
            ukernel_type = pytorch_qnnp_ukernel_type_conv,
            group_input_channels = 3,
            group_output_channels = 3 \<rparr>)"
proof -
  have nz: "(3 :: uint32_t) \<noteq> 0" by simp
  have n: "float_exponent 1065353216 = 127" "\<not> float_sign 1065353216"
    by (simp_all add: float_exponent_def float_sign_def)
  have l: "fst (construct (3, 3) (1, 1) (1, 1) (0, 0, 0, 0) (0, 0) 3 10 10 0 1065353216 0 255
      False) = [Log Error Channels_not_divisible [Str ''convolution'']]"
    unfolding construct_log [OF nz]
    by (simp add: at0_def at1_def pad0_def pad1_def pad2_def pad3_def scale_check_iff n)
  have v: "snd (construct (3, 3) (1, 1) (1, 1) (0, 0, 0, 0) (0, 0) 3 10 10 0 1065353216 0 255
      False) = Inr \<lparr> kernel_dims = (3, 3),
            stride_dims = (1, 1),
            dilation = (1, 1),
            padding = (0, 0, 0, 0),
            adjustment_dims = (0, 0),
            groups = 3,
            input_channels = 10,
            output_channels = 10,
            kernel_zero_point = 0,
            kernel_scale = 1065353216,
            output_min = 0,
            output_max = 255,
            transpose_flag = False,
            ukernel_type = pytorch_qnnp_ukernel_type_conv,
            group_input_channels = 3,
            group_output_channels = 3 \<rparr>"
    unfolding construct_value [OF nz]
    by (simp add: select_ukernel_type_def at0_def at1_def pad0_def pad1_def pad2_def pad3_def)
  from l v show ?thesis by (simp add: prod_eq_iff)
qed

text \<open>
  C1, amended: construction reports each violated hard invariant as an error-severity
  diagnostic that identifies it, and reports no such error for an invariant that holds.
  Zero groups are reported as the groups-zero error; for non-zero groups, a channel count
  that \<open>groups\<close> does not divide, a zero kernel, stride or dilation dimension, and a
  kernel scale that is negative, zero, subnormal, infinite or NaN (sign bit set, or
  biased exponent 0 or 255) are each reported by their own error.
\<close>

theorem hard_invariants_reported:
  "(let errs = set (error_messages (fst (construct kernel_v stride_v dilation_v padding_v
       adjustment_v groups_v input_channels_v output_channels_v kernel_zp_v kernel_stride_v
       out_min_v out_max_v transpose_v)))
    in (Groups_zero \<in> errs \<longleftrightarrow> groups_v = 0)
     \<and> (groups_v \<noteq> 0 \<longrightarrow>
          (Channels_not_divisible \<in> errs \<longleftrightarrow>
             unat input_channels_v mod unat groups_v \<noteq> 0 \<or>
             unat output_channels_v mod unat groups_v \<noteq> 0)
        \<and> (Kernel_zero \<in> errs \<longleftrightarrow> at0 kernel_v = 0 \<or> at1 kernel_v = 0)
        \<and> (Subsampling_zero \<in> errs \<longleftrightarrow> at0 stride_v = 0 \<or> at1 stride_v = 0)
        \<and> (Dilation_zero \<in> errs \<longleftrightarrow> at0 dilation_v = 0 \<or> at1 dilation_v = 0)
        \<and> (Kernel_scale_invalid \<in> errs \<longleftrightarrow>
             float_sign kernel_stride_v \<or> float_exponent kernel_stride_v = 0 \<or>
             float_exponent kernel_stride_v = 255)))"
proof (cases "groups_v = 0")
  case True
  then show ?thesis by (simp add: construct_zero_groups)
next
  case False
  show ?thesis
    unfolding Let_def construct_error_messages [OF False]
    using False by (simp only: set_append) auto
qed

theorem hard_invariants_reported_witness:
  "(3 :: uint32_t) \<noteq> 0
   \<and> Channels_not_divisible \<in> set (error_messages (fst
         (construct (3, 3) (1, 1) (1, 1) (0, 0, 0, 0) (0, 0) 3 10 10 0 1065353216 0 255 False)))
   \<and> Kernel_scale_invalid \<notin> set (error_messages (fst
         (construct (3, 3) (1, 1) (1, 1) (0, 0, 0, 0) (0, 0) 3 10 10 0 1065353216 0 255 False)))
   \<and> Groups_zero \<in> set (error_messages (fst
         (construct (3, 3) (1, 1) (1, 1) (0, 0, 0, 0) (0, 0) 0 10 10 0 1065353216 0 255 False)))"
proof -
  have n: "float_exponent 1065353216 = 127" "\<not> float_sign 1065353216"
    by (simp_all add: float_exponent_def float_sign_def)
  from hard_invariants_reported [of "(3, 3)" "(1, 1)" "(1, 1)" "(0, 0, 0, 0)" "(0, 0)" 3 10 10 0
      1065353216 0 255 False]
  have a: "Channels_not_divisible \<in> set (error_messages (fst
         (construct (3, 3) (1, 1) (1, 1) (0, 0, 0, 0) (0, 0) 3 10 10 0 1065353216 0 255 False)))"
    and b: "Kernel_scale_invalid \<notin> set (error_messages (fst
         (construct (3, 3) (1, 1) (1, 1) (0, 0, 0, 0) (0, 0) 3 10 10 0 1065353216 0 255 False)))"
    by (simp_all add: Let_def n)
  from hard_invariants_reported [of "(3, 3)" "(1, 1)" "(1, 1)" "(0, 0, 0, 0)" "(0, 0)" 0 10 10 0
      1065353216 0 255 False]
  have c: "Groups_zero \<in> set (error_messages (fst
         (construct (3, 3) (1, 1) (1, 1) (0, 0, 0, 0) (0, 0) 0 10 10 0 1065353216 0 255 False)))"
    by (simp add: Let_def)
  from a b c show ?thesis by simp
qed

text \<open>
  What the scale check accepts and rejects, on bit patterns: 1.0 is accepted; zero, the
  smallest subnormal, infinity, a NaN and -1.0 are rejected.
\<close>

lemma scale_check_examples:
  "\<not> (float_le_zero 1065353216 \<or> \<not> isnormal 1065353216)"
  "float_le_zero 0 \<or> \<not> isnormal 0"
  "float_le_zero 1 \<or> \<not> isnormal 1"
  "float_le_zero 2139095040 \<or> \<not> isnormal 2139095040"
  "float_le_zero 2143289344 \<or> \<not> isnormal 2143289344"
  "float_le_zero 3212836864 \<or> \<not> isnormal 3212836864"
  by (simp_all add: scale_check_iff float_exponent_def float_sign_def)

end
